theory Spec2Isabelle
  imports Complex_Main "HOL-Library.Sublist" "HOL-Library.Monad_Syntax" "HOL-Library.Log_Nat"
begin

section \<open>JavaScript values\<close>

text \<open>
  The values that reach the metric code of \<^verbatim>\<open>analyzer.js\<close>: \<^verbatim>\<open>undefined\<close> (a
  property that is not there), \<^verbatim>\<open>null\<close>, and numbers. A number is an IEEE 754 double:
  \<^verbatim>\<open>NaN\<close>, the two infinities, negative zero, or \<open>Num x\<close>, where \<open>x\<close> is the rational
  that a finite double denotes (\<open>Num 0\<close> being positive zero). Strings, booleans and
  objects in the place of a score or of a numeric value are not modelled.
\<close>

datatype jsval = Undefined | Null | NaN | Infinity | MinusInfinity | MinusZero | Num rat

subsection \<open>Rounding to a double\<close>

text \<open>\<open>binade x\<close>, for a positive \<open>x\<close>, is the \<open>e\<close> with \<open>2 powi e \<le> x < 2 powi (e + 1)\<close>.\<close>

definition binade :: "rat \<Rightarrow> int" where
  "binade x =
     (let (a, b) = quotient_of x; e = bitlen a - bitlen b
      in if 2 powi e \<le> x then e else e - 1)"

text \<open>The nearest integer, the even one of the two when they are equally near.\<close>

definition round_half_even :: "rat \<Rightarrow> int" where
  "round_half_even q =
     (let n = \<lfloor>q\<rfloor>; r = q - of_int n
      in if r < 1 / 2 then n else if 1 / 2 < r then n + 1 else if even n then n else n + 1)"

text \<open>
  The nearest value that has 53 significant bits and an exponent of at least -1022
  (round to nearest, ties to even); the range is not bounded above here.
\<close>

definition nearest_double :: "rat \<Rightarrow> rat" where
  "nearest_double x =
     (if x = 0 then 0
      else (let e = max (binade \<bar>x\<bar>) (- 1022); q = 2 powi (e - 52)
            in sgn x * (of_int (round_half_even (\<bar>x\<bar> / q)) * q)))"

text \<open>
  The double that a real result is rounded to: what is rounded to \<open>2 powi 1024\<close> or
  beyond becomes an infinity, and a negative number that is rounded to zero becomes
  negative zero.
\<close>

definition to_double :: "rat \<Rightarrow> jsval" where
  "to_double x =
     (let y = nearest_double x
      in if 2 powi 1024 \<le> y then Infinity
         else if y \<le> - (2 powi 1024) then MinusInfinity
         else if y = 0 \<and> x < 0 then MinusZero
         else Num y)"

text \<open>
  A number of a report may be given by the decimal that the text of the report writes;
  \<^verbatim>\<open>JSON.parse\<close>, which \<^verbatim>\<open>runLighthouse\<close> applies to the text, makes the nearest double
  of it, or an infinity. A number that is a double stays as it is.
\<close>

fun parsed :: "jsval \<Rightarrow> jsval" where
  "parsed (Num x) = to_double x"
| "parsed v = v"

subsection \<open>Operations\<close>

text \<open>
  \<^verbatim>\<open>v * 100\<close>: \<^verbatim>\<open>ToNumber\<close> sends \<^verbatim>\<open>null\<close> to 0 and \<^verbatim>\<open>undefined\<close> to \<^verbatim>\<open>NaN\<close>, and the
  product of two doubles is the exact product rounded to a double.
\<close>

fun times100 :: "jsval \<Rightarrow> jsval" where
  "times100 Undefined = NaN"
| "times100 Null = Num 0"
| "times100 NaN = NaN"
| "times100 Infinity = Infinity"
| "times100 MinusInfinity = MinusInfinity"
| "times100 MinusZero = MinusZero"
| "times100 (Num x) = to_double (x * 100)"

text \<open>
  \<^verbatim>\<open>Math.round\<close>: the nearest integer, a tie going up; the result is negative zero for
  a number from -0.5 up to, but not including, 0.
\<close>

fun Math_round :: "jsval \<Rightarrow> jsval" where
  "Math_round Undefined = NaN"
| "Math_round Null = Num 0"
| "Math_round NaN = NaN"
| "Math_round Infinity = Infinity"
| "Math_round MinusInfinity = MinusInfinity"
| "Math_round MinusZero = MinusZero"
| "Math_round (Num x) =
     (if - (1 / 2) \<le> x \<and> x < 0 then MinusZero else Num (of_int \<lfloor>x + 1 / 2\<rfloor>))"

text \<open>\<^verbatim>\<open>ToBoolean\<close>, as the condition of \<^verbatim>\<open>c ? a : b\<close> applies it.\<close>

fun truthy :: "jsval \<Rightarrow> bool" where
  "truthy Undefined = False"
| "truthy Null = False"
| "truthy NaN = False"
| "truthy Infinity = True"
| "truthy MinusInfinity = True"
| "truthy MinusZero = False"
| "truthy (Num x) = (x \<noteq> 0)"

text \<open>The left operand of \<^verbatim>\<open>??\<close> is replaced when it is \<^verbatim>\<open>null\<close> or \<^verbatim>\<open>undefined\<close>.\<close>

fun nullish :: "jsval \<Rightarrow> bool" where
  "nullish Undefined = True"
| "nullish Null = True"
| "nullish _ = False"

text \<open>\<^verbatim>\<open>v >= n\<close> for a number \<open>n\<close>; every comparison with \<^verbatim>\<open>NaN\<close> is false.\<close>

fun ge_num :: "jsval \<Rightarrow> rat \<Rightarrow> bool" where
  "ge_num Undefined n = False"
| "ge_num Null n = (0 \<ge> n)"
| "ge_num NaN n = False"
| "ge_num Infinity n = True"
| "ge_num MinusInfinity n = False"
| "ge_num MinusZero n = (0 \<ge> n)"
| "ge_num (Num x) n = (x \<ge> n)"

section \<open>The audit report and the metric extractor\<close>

text \<open>
  The part of the parsed Lighthouse report that \<^verbatim>\<open>extractMetrics\<close> reads. The report
  itself is an object. An object inside it that may be missing is an \<open>option\<close>; a
  property of an object that is there is a \<open>jsval\<close>, \<open>Undefined\<close> when the object has
  no such key. A number is held as the report file writes it, which may be a decimal
  that is no double; the double that \<^verbatim>\<open>JSON.parse\<close> made of it is its \<open>parsed\<close>, which
  the extractor takes wherever it reads a number.
\<close>

record category =
  score :: jsval

record categories =
  c_performance :: "category option"
  c_accessibility :: "category option"
  c_best_practices :: "category option"
  c_seo :: "category option"

record audit =
  numericValue :: jsval

record audits =
  first_contentful_paint :: "audit option"
  largest_contentful_paint :: "audit option"
  total_blocking_time :: "audit option"
  cumulative_layout_shift :: "audit option"
  speed_index :: "audit option"

record report =
  categories :: "categories option"
  audits :: "audits option"

text \<open>
  A Metric Set. \<open>error\<close> is \<open>None\<close> when the object has no \<^verbatim>\<open>error\<close> key, which is
  the case for every object that \<^verbatim>\<open>extractMetrics\<close> returns.
\<close>

record metrics =
  performance :: jsval
  accessibility :: jsval
  bestPractices :: jsval
  seo :: jsval
  fcp :: jsval
  lcp :: jsval
  tbt :: jsval
  cls :: jsval
  si :: jsval
  error :: "string option"

text \<open>
  Reading a property of \<^verbatim>\<open>undefined\<close> throws a \<^verbatim>\<open>TypeError\<close>; the constructor
  carries the name of the property that was read. \<open>Failed\<close> is any other error, with
  its message.
\<close>

datatype js_error = TypeError string | Failed string

fun message :: "js_error \<Rightarrow> string" where
  "message (TypeError p) = ''Cannot read properties of undefined (reading '' @ [CHR 0x27] @ p @ [CHR 0x27] @ '')''"
| "message (Failed m) = m"

text \<open>\<^verbatim>\<open>o.p\<close> for an object \<open>o\<close> that may be \<^verbatim>\<open>undefined\<close>.\<close>

definition read_prop :: "string \<Rightarrow> 'a option \<Rightarrow> js_error + 'a" where
  "read_prop p ob = (case ob of None \<Rightarrow> Inl (TypeError p) | Some x \<Rightarrow> Inr x)"

text \<open>\<^verbatim>\<open>Math.round(categories.c.score * 100)\<close>, where \<open>ob\<close> is \<^verbatim>\<open>categories.c\<close>.\<close>

definition score100 :: "category option \<Rightarrow> js_error + jsval" where
  "score100 ob = (case read_prop ''score'' ob of
      Inl e \<Rightarrow> Inl e
    | Inr c \<Rightarrow> Inr (Math_round (times100 (parsed (score c)))))"

text \<open>
  \<^verbatim>\<open>a?.numericValue ? Math.round(a.numericValue) : null\<close>; the flag says whether the
  value is rounded (it is not for \<^verbatim>\<open>cls\<close>).
\<close>

definition timing :: "bool \<Rightarrow> audit option \<Rightarrow> jsval" where
  "timing rounded ob =
     (let v = (case ob of None \<Rightarrow> Undefined | Some a \<Rightarrow> parsed (numericValue a))
      in if truthy v then (if rounded then Math_round v else v) else Null)"

definition extractMetrics :: "report \<Rightarrow> js_error + metrics" where
  "extractMetrics rep =
    (case read_prop ''performance'' (categories rep) of Inl e \<Rightarrow> Inl e | Inr cs \<Rightarrow>
     case score100 (c_performance cs) of Inl e \<Rightarrow> Inl e | Inr p \<Rightarrow>
     case score100 (c_accessibility cs) of Inl e \<Rightarrow> Inl e | Inr a \<Rightarrow>
     case score100 (c_best_practices cs) of Inl e \<Rightarrow> Inl e | Inr b \<Rightarrow>
     case score100 (c_seo cs) of Inl e \<Rightarrow> Inl e | Inr s \<Rightarrow>
     case read_prop ''first-contentful-paint'' (audits rep) of Inl e \<Rightarrow> Inl e | Inr au \<Rightarrow>
       Inr \<lparr>performance = p, accessibility = a, bestPractices = b, seo = s,
            fcp = timing True (first_contentful_paint au),
            lcp = timing True (largest_contentful_paint au),
            tbt = timing True (total_blocking_time au),
            cls = timing False (cumulative_layout_shift au),
            si = timing True (speed_index au),
            error = None\<rparr>)"

section \<open>Strings\<close>

text \<open>
  A string is the list of the bytes of its UTF-8 encoding. The separators that the
  program looks for (\<^verbatim>\<open>,\<close> \<^verbatim>\<open>:\<close> \<^verbatim>\<open>.\<close> and the line feed) are single bytes that
  occur in no longer encoding.
\<close>

definition nl :: string where
  "nl = [CHR 0x0A]"

text \<open>
  \<^verbatim>\<open>s.split(c)\<close> for a separator of one character. The result has at least one
  piece, so the first branch of the \<open>case\<close> is never taken.
\<close>

fun split_str :: "char \<Rightarrow> string \<Rightarrow> string list" where
  "split_str c [] = [[]]"
| "split_str c (x # xs) =
     (if x = c then [] # split_str c xs
      else (case split_str c xs of [] \<Rightarrow> [[x]] | y # ys \<Rightarrow> (x # y) # ys))"

text \<open>\<^verbatim>\<open>xs.join(sep)\<close>.\<close>

fun join :: "string \<Rightarrow> string list \<Rightarrow> string" where
  "join sep [] = []"
| "join sep [x] = x"
| "join sep (x # y # ys) = x @ sep @ join sep (y # ys)"

text \<open>
  The characters that \<^verbatim>\<open>trim\<close> removes (\<^verbatim>\<open>WhiteSpace\<close> and \<^verbatim>\<open>LineTerminator\<close> of
  ECMAScript), each as its UTF-8 bytes: U+0009 to U+000D, U+0020, U+00A0, U+1680,
  U+2000 to U+200A, U+2028, U+2029, U+202F, U+205F, U+3000, U+FEFF.
\<close>

definition white_space :: "string list" where
  "white_space =
    [[CHR 0x09], [CHR 0x0A], [CHR 0x0B], [CHR 0x0C], [CHR 0x0D], [CHR 0x20],
     [CHR 0xC2, CHR 0xA0],
     [CHR 0xE1, CHR 0x9A, CHR 0x80],
     [CHR 0xE2, CHR 0x80, CHR 0x80], [CHR 0xE2, CHR 0x80, CHR 0x81],
     [CHR 0xE2, CHR 0x80, CHR 0x82], [CHR 0xE2, CHR 0x80, CHR 0x83],
     [CHR 0xE2, CHR 0x80, CHR 0x84], [CHR 0xE2, CHR 0x80, CHR 0x85],
     [CHR 0xE2, CHR 0x80, CHR 0x86], [CHR 0xE2, CHR 0x80, CHR 0x87],
     [CHR 0xE2, CHR 0x80, CHR 0x88], [CHR 0xE2, CHR 0x80, CHR 0x89],
     [CHR 0xE2, CHR 0x80, CHR 0x8A],
     [CHR 0xE2, CHR 0x80, CHR 0xA8], [CHR 0xE2, CHR 0x80, CHR 0xA9],
     [CHR 0xE2, CHR 0x80, CHR 0xAF],
     [CHR 0xE2, CHR 0x81, CHR 0x9F],
     [CHR 0xE3, CHR 0x80, CHR 0x80],
     [CHR 0xEF, CHR 0xBB, CHR 0xBF]]"

text \<open>
  Removing from the front of \<open>s\<close> every leading member of \<open>ws\<close>, as long as there is
  one; an empty member of \<open>ws\<close> is passed over.
\<close>

function strip :: "string list \<Rightarrow> string \<Rightarrow> string" where
  "strip ws s =
     (case List.find (\<lambda>w. w \<noteq> [] \<and> prefix w s) ws of
        None \<Rightarrow> s
      | Some w \<Rightarrow> strip ws (drop (length w) s))"
  by pat_completeness auto
termination
proof (relation "measure (\<lambda>(ws, s). length s)")
  show "wf (measure (\<lambda>(ws, s). length s))" by simp
next
  fix ws :: "string list" and s w :: string
  assume "List.find (\<lambda>w. w \<noteq> [] \<and> prefix w s) ws = Some w"
  then have "w \<noteq> []" and "prefix w s"
    by (auto simp: find_Some_iff)
  then have "s \<noteq> []" by auto
  with \<open>w \<noteq> []\<close> show "((ws, drop (length w) s), (ws, s)) \<in> measure (\<lambda>(ws, s). length s)"
    by simp
qed

declare strip.simps [simp del]

definition trim :: "string \<Rightarrow> string" where
  "trim s = rev (strip (map rev white_space) (rev (strip white_space s)))"

text \<open>
  \<^verbatim>\<open>s.replace(/[:.]/g, '-')\<close> and \<^verbatim>\<open>s.slice(0, -5)\<close>. The program applies them to
  an ISO timestamp, whose characters are one byte each.
\<close>

definition replace_colon_dot :: "string \<Rightarrow> string" where
  "replace_colon_dot s = map (\<lambda>c. if c = CHR '':'' \<or> c = CHR ''.'' then CHR ''-'' else c) s"

definition slice_0_minus5 :: "string \<Rightarrow> string" where
  "slice_0_minus5 s = take (length s - 5) s"

section \<open>The environment and the state of the run\<close>

text \<open>
  A reading of the system clock, seen through what the program asks of it:
  \<^verbatim>\<open>Date.now()\<close>, \<^verbatim>\<open>toISOString()\<close>, and \<^verbatim>\<open>toLocaleString('es-ES', ...)\<close> for
  Europe/Madrid.
\<close>

record date =
  millis :: nat
  toISOString :: string
  toLocaleString :: string

text \<open>
  What the program does not decide. \<open>LIGHTHOUSE_URLS\<close> is the environment variable,
  \<open>None\<close> when it is not set. \<open>clock k\<close> is the reading that the \<open>k\<close>-th look at the
  clock gets. \<open>exec k command\<close> is what the \<open>k\<close>-th external invocation comes to, when
  it runs \<open>command\<close>: the process, then reading and parsing the temporary file it
  wrote, give the parsed report or the error that one of them raised. \<open>toString\<close>
  is the text that JavaScript gives a finite number.
\<close>

record env =
  LIGHTHOUSE_URLS :: "string option"
  clock :: "nat \<Rightarrow> date"
  exec :: "nat \<Rightarrow> string \<Rightarrow> js_error + report"
  toString :: "rat \<Rightarrow> string"

text \<open>
  A JSON document, as \<^verbatim>\<open>JSON.stringify\<close> lays it out and \<^verbatim>\<open>JSON.parse\<close> reads it. A
  number of it is the finite double that was written: its text is the decimal that
  \<^verbatim>\<open>JSON.parse\<close> reads back as that double.
\<close>

datatype json =
    JNull
  | JBool bool
  | JNumber rat
  | JString string
  | JArray "json list"
  | JObject "(string \<times> json) list"

datatype content = Text string | Document json

text \<open>
  The state that the run changes: how often the clock has been read, the command
  lines of the external invocations so far, the directories that exist, and the
  files written with their content, the latest first. The temporary file of an
  invocation is deleted before \<^verbatim>\<open>runLighthouse\<close> returns or throws, and is not
  recorded; what is printed on the console is not modelled.
\<close>

record world =
  ticks :: nat
  invocations :: "string list"
  dirs :: "string list"
  files :: "(string \<times> content) list"

definition new_Date :: "env \<Rightarrow> world \<Rightarrow> date \<times> world" where
  "new_Date E w = (clock E (ticks w), w\<lparr>ticks := Suc (ticks w)\<rparr>)"

definition writeFileSync :: "string \<Rightarrow> content \<Rightarrow> world \<Rightarrow> world" where
  "writeFileSync filename c w = w\<lparr>files := (filename, c) # files w\<rparr>"

section \<open>The audit invoker and the orchestrator\<close>

definition tempFile :: "env \<Rightarrow> string \<Rightarrow> date \<Rightarrow> string" where
  "tempFile E preset d = ''temp_'' @ preset @ ''_'' @ toString E (of_nat (millis d)) @ ''.json''"

definition command :: "string \<Rightarrow> string \<Rightarrow> string \<Rightarrow> string" where
  \<open>command url preset file =
    (let presetFlag = (if preset = ''desktop'' then ''--preset=desktop'' else [])
     in ''lighthouse "'' @ url @ ''" '' @ presetFlag
        @ '' --output=json --output-path="'' @ file
        @ ''" --chrome-flags="--headless --no-sandbox" --only-categories=performance,accessibility,best-practices,seo --quiet'')\<close>

text \<open>
  \<^verbatim>\<open>runLighthouse\<close>: the name of the temporary file comes from \<^verbatim>\<open>Date.now()\<close>, the
  command is run, and the function returns the report or throws the error.
\<close>

definition runLighthouse :: "env \<Rightarrow> string \<Rightarrow> string \<Rightarrow> world \<Rightarrow> (js_error + report) \<times> world" where
  "runLighthouse E u preset w =
    (let (d, w1) = new_Date E w;
         cmd = command u preset (tempFile E preset d)
     in (exec E (length (invocations w1)) cmd,
         w1\<lparr>invocations := invocations w1 @ [cmd]\<rparr>))"

record url_result =
  url :: string
  desktop :: metrics
  mobile :: metrics

text \<open>The object that a \<^verbatim>\<open>catch\<close> block of \<^verbatim>\<open>analyzeUrls\<close> stores.\<close>

definition failed :: "string \<Rightarrow> metrics" where
  "failed msg =
    \<lparr>performance = Null, accessibility = Null, bestPractices = Null, seo = Null,
     fcp = Null, lcp = Null, tbt = Null, cls = Null, si = Null, error = Some msg\<rparr>"

text \<open>
  One \<^verbatim>\<open>try\<close>/\<^verbatim>\<open>catch\<close> of the loop body: the \<^verbatim>\<open>catch\<close> gets what
  \<^verbatim>\<open>runLighthouse\<close> throws and also what \<^verbatim>\<open>extractMetrics\<close> throws.
\<close>

definition metrics_of :: "js_error + report \<Rightarrow> metrics" where
  "metrics_of r =
     (case r of
        Inl e \<Rightarrow> failed (message e)
      | Inr rep \<Rightarrow> (case extractMetrics rep of Inl e \<Rightarrow> failed (message e) | Inr m \<Rightarrow> m))"

definition audit_profile :: "env \<Rightarrow> string \<Rightarrow> string \<Rightarrow> world \<Rightarrow> metrics \<times> world" where
  "audit_profile E u preset w = (let (r, w1) = runLighthouse E u preset w in (metrics_of r, w1))"

function analyze_loop ::
  "env \<Rightarrow> string list \<Rightarrow> nat \<Rightarrow> url_result list \<Rightarrow> world \<Rightarrow> url_result list \<times> world" where
  "analyze_loop E urls i results w =
     (if i < length urls then
        (let u = urls ! i;
             (m, w1) = audit_profile E u ''mobile'' w;
             (d, w2) = audit_profile E u ''desktop'' w1;
             result = \<lparr>url = u, desktop = d, mobile = m\<rparr>
         in analyze_loop E urls (Suc i) (results @ [result]) w2)
      else (results, w))"
  by pat_completeness auto
termination
  by (relation "measure (\<lambda>(E, urls, i, results, w). length urls - i)") auto

declare analyze_loop.simps [simp del]

definition analyzeUrls :: "env \<Rightarrow> string list \<Rightarrow> world \<Rightarrow> url_result list \<times> world" where
  "analyzeUrls E urls w = analyze_loop E urls 0 [] w"

section \<open>The report emitters\<close>

text \<open>The text of a value inside a template literal.\<close>

fun to_text :: "env \<Rightarrow> jsval \<Rightarrow> string" where
  "to_text E Undefined = ''undefined''"
| "to_text E Null = ''null''"
| "to_text E NaN = ''NaN''"
| "to_text E Infinity = ''Infinity''"
| "to_text E MinusInfinity = ''-Infinity''"
| "to_text E MinusZero = ''0''"
| "to_text E (Num x) = toString E x"

text \<open>\<^verbatim>\<open>${v ?? alt}\<close>.\<close>

definition coalesce :: "env \<Rightarrow> jsval \<Rightarrow> string \<Rightarrow> string" where
  "coalesce E v alt = (if nullish v then alt else to_text E v)"

subsection \<open>Historical archive\<close>

text \<open>
  \<^verbatim>\<open>JSON.stringify\<close> writes \<^verbatim>\<open>null\<close> for \<^verbatim>\<open>null\<close>, for \<^verbatim>\<open>NaN\<close> and for the two
  infinities, writes \<^verbatim>\<open>0\<close> for negative zero, and leaves out a property whose value
  is \<^verbatim>\<open>undefined\<close>.
\<close>

fun json_of_val :: "jsval \<Rightarrow> json option" where
  "json_of_val Undefined = None"
| "json_of_val Null = Some JNull"
| "json_of_val NaN = Some JNull"
| "json_of_val Infinity = Some JNull"
| "json_of_val MinusInfinity = Some JNull"
| "json_of_val MinusZero = Some (JNumber 0)"
| "json_of_val (Num x) = Some (JNumber x)"

definition json_field :: "string \<Rightarrow> jsval \<Rightarrow> (string \<times> json) list" where
  "json_field k v = (case json_of_val v of None \<Rightarrow> [] | Some j \<Rightarrow> [(k, j)])"

definition json_of_metrics :: "metrics \<Rightarrow> json" where
  "json_of_metrics m = JObject
     (json_field ''performance'' (performance m) @
      json_field ''accessibility'' (accessibility m) @
      json_field ''bestPractices'' (bestPractices m) @
      json_field ''seo'' (seo m) @
      json_field ''fcp'' (fcp m) @
      json_field ''lcp'' (lcp m) @
      json_field ''tbt'' (tbt m) @
      json_field ''cls'' (cls m) @
      json_field ''si'' (si m) @
      (case error m of None \<Rightarrow> [] | Some e \<Rightarrow> [(''error'', JString e)]))"

definition json_of_result :: "url_result \<Rightarrow> json" where
  "json_of_result r = JObject
     [(''url'', JString (url r)),
      (''desktop'', json_of_metrics (desktop r)),
      (''mobile'', json_of_metrics (mobile r))]"

definition saveHistoricalData :: "env \<Rightarrow> url_result list \<Rightarrow> world \<Rightarrow> string \<times> world" where
  "saveHistoricalData E results w =
    (let historyDir = ''historical-data'';
         w1 = (if historyDir \<in> set (dirs w) then w else w\<lparr>dirs := historyDir # dirs w\<rparr>);
         (d1, w2) = new_Date E w1;
         timestamp = toISOString d1;
         filename = historyDir @ ''/'' @ ''lighthouse_''
           @ slice_0_minus5 (replace_colon_dot timestamp) @ ''.json'';
         (d2, w3) = new_Date E w2;
         historicalData = JObject
           [(''timestamp'', JString timestamp),
            (''date'', JString (toLocaleString d2)),
            (''results'', JArray (map json_of_result results))]
     in (filename, writeFileSync filename (Document historicalData) w3))"

subsection \<open>Tabular export\<close>

definition csvHeader :: string where
  "csvHeader = ''URL,''
     @ ''Desktop Performance,Desktop Accessibility,Desktop Best Practices,Desktop SEO,Desktop FCP (ms),Desktop LCP (ms),Desktop TBT (ms),Desktop CLS,Desktop SI (ms),''
     @ ''Mobile Performance,Mobile Accessibility,Mobile Best Practices,Mobile SEO,Mobile FCP (ms),Mobile LCP (ms),Mobile TBT (ms),Mobile CLS,Mobile SI (ms)''
     @ nl"

definition csv_cells :: "env \<Rightarrow> metrics \<Rightarrow> string" where
  "csv_cells E m =
     coalesce E (performance m) ''ERROR'' @ '','' @ coalesce E (accessibility m) ''ERROR'' @ '',''
     @ coalesce E (bestPractices m) ''ERROR'' @ '','' @ coalesce E (seo m) ''ERROR'' @ '',''
     @ coalesce E (fcp m) ''ERROR'' @ '','' @ coalesce E (lcp m) ''ERROR'' @ '',''
     @ coalesce E (tbt m) ''ERROR'' @ '','' @ coalesce E (cls m) ''ERROR'' @ '',''
     @ coalesce E (si m) ''ERROR''"

definition csv_row :: "env \<Rightarrow> url_result \<Rightarrow> string" where
  "csv_row E result =
     (let d = desktop result; m = mobile result
      in url result @ '','' @ csv_cells E d @ '','' @ csv_cells E m)"

definition csvContent :: "env \<Rightarrow> url_result list \<Rightarrow> string" where
  "csvContent E results = csvHeader @ join nl (map (csv_row E) results)"

definition saveResultsToCSV :: "env \<Rightarrow> url_result list \<Rightarrow> world \<Rightarrow> string \<times> world" where
  "saveResultsToCSV E results w =
    (let (d, w1) = new_Date E w;
         timestamp = slice_0_minus5 (replace_colon_dot (toISOString d));
         filename = ''lighthouse_results_'' @ timestamp @ ''.csv''
     in (filename, writeFileSync filename (Text (csvContent E results)) w1))"

subsection \<open>HTML summary\<close>

definition black_circle :: string where
  "black_circle = [CHR 0xE2, CHR 0x9A, CHR 0xAB]"

definition green_circle :: string where
  "green_circle = [CHR 0xF0, CHR 0x9F, CHR 0x9F, CHR 0xA2]"

definition yellow_circle :: string where
  "yellow_circle = [CHR 0xF0, CHR 0x9F, CHR 0x9F, CHR 0xA1]"

definition red_circle :: string where
  "red_circle = [CHR 0xF0, CHR 0x9F, CHR 0x94, CHR 0xB4]"

definition getEmojiHTML :: "jsval \<Rightarrow> string" where
  "getEmojiHTML s =
     (if s = Null \<or> s = Undefined then black_circle
      else if ge_num s 90 then green_circle
      else if ge_num s 50 then yellow_circle
      else red_circle)"

definition html_head :: "env \<Rightarrow> string \<Rightarrow> url_result list \<Rightarrow> string" where
  \<open>html_head E date results = concat [
     ''<!DOCTYPE html>'', nl,
     ''<html>'', nl,
     ''<head>'', nl,
     ''  <meta charset="UTF-8">'', nl,
     ''  <style>'', nl,
     ''    body {'', nl,
     ''      font-family: '', [CHR 0x27], ''Segoe UI'', [CHR 0x27], '', Tahoma, Geneva, Verdana, sans-serif;'', nl,
     ''      background-color: #f5f5f5;'', nl,
     ''      margin: 0;'', nl,
     ''      padding: 20px;'', nl,
     ''    }'', nl,
     ''    .container {'', nl,
     ''      max-width: 1200px;'', nl,
     ''      margin: 0 auto;'', nl,
     ''      background-color: white;'', nl,
     ''      padding: 30px;'', nl,
     ''      border-radius: 8px;'', nl,
     ''      box-shadow: 0 2px 4px rgba(0,0,0,0.1);'', nl,
     ''    }'', nl,
     ''    h1 {'', nl,
     ''      color: #333;'', nl,
     ''      border-bottom: 3px solid #4CAF50;'', nl,
     ''      padding-bottom: 10px;'', nl,
     ''      margin-bottom: 20px;'', nl,
     ''    }'', nl,
     ''    .date {'', nl,
     ''      color: #666;'', nl,
     ''      font-size: 14px;'', nl,
     ''      margin-bottom: 20px;'', nl,
     ''    }'', nl,
     ''    table {'', nl,
     ''      width: 100%;'', nl,
     ''      border-collapse: collapse;'', nl,
     ''      margin-top: 20px;'', nl,
     ''      font-size: 13px;'', nl,
     ''    }'', nl,
     ''    th {'', nl,
     ''      background-color: #4CAF50;'', nl,
     ''      color: white;'', nl,
     ''      padding: 12px 8px;'', nl,
     ''      text-align: center;'', nl,
     ''      font-weight: 600;'', nl,
     ''      border: 1px solid #ddd;'', nl,
     ''    }'', nl,
     ''    td {'', nl,
     ''      padding: 10px 8px;'', nl,
     ''      border: 1px solid #ddd;'', nl,
     ''      text-align: center;'', nl,
     ''    }'', nl,
     ''    .url-cell {'', nl,
     ''      text-align: left;'', nl,
     ''      font-weight: 500;'', nl,
     ''      max-width: 300px;'', nl,
     ''      overflow: hidden;'', nl,
     ''      text-overflow: ellipsis;'', nl,
     ''      white-space: nowrap;'', nl,
     ''    }'', nl,
     ''    tr:nth-child(even) {'', nl,
     ''      background-color: #f9f9f9;'', nl,
     ''    }'', nl,
     ''    tr:hover {'', nl,
     ''      background-color: #f0f0f0;'', nl,
     ''    }'', nl,
     ''    .device-header {'', nl,
     ''      background-color: #2196F3;'', nl,
     ''      color: white;'', nl,
     ''    }'', nl,
     ''    .score {'', nl,
     ''      font-weight: 600;'', nl,
     ''      font-size: 14px;'', nl,
     ''    }'', nl,
     ''    .footer {'', nl,
     ''      margin-top: 30px;'', nl,
     ''      padding-top: 20px;'', nl,
     ''      border-top: 1px solid #ddd;'', nl,
     ''      text-align: center;'', nl,
     ''      color: #666;'', nl,
     ''      font-size: 12px;'', nl,
     ''    }'', nl,
     ''  </style>'', nl,
     ''</head>'', nl,
     ''<body>'', nl,
     ''  <div class="container">'', nl,
     ''    <h1>'', [CHR 0xF0, CHR 0x9F, CHR 0x93, CHR 0x8A], '' Lighthouse Analysis Report</h1>'', nl,
     ''    <div class="date">Fecha: '', date, ''</div>'', nl,
     ''    <div class="date">URLs analizadas: '', toString E (of_nat (length results)), ''</div>'', nl,
     ''    '', nl,
     ''    <div style="background: #e3f2fd; border-left: 4px solid #2196F3; padding: 15px; margin: 20px 0; border-radius: 4px;">'', nl,
     ''      <p style="margin: 0; color: #1976d2; font-weight: 600; font-size: 14px;">'', nl,
     ''        '', [CHR 0xF0, CHR 0x9F, CHR 0x93, CHR 0x8A], '' <strong>Dashboard Hist'', [CHR 0xC3, CHR 0xB3], ''rico:</strong> '', nl,
     ''        <a href="https://analyzerbotreporter-crypto.github.io/HL/dashboard.html" '', nl,
     ''           style="color: #1976d2; text-decoration: none; border-bottom: 2px solid #2196F3;">'', nl,
     ''          Ver evoluci'', [CHR 0xC3, CHR 0xB3], ''n de todas las m'', [CHR 0xC3, CHR 0xA9], ''tricas'', nl,
     ''        </a>'', nl,
     ''      </p>'', nl,
     ''    </div>'', nl,
     ''    '', nl,
     ''    <table>'', nl,
     ''      <thead>'', nl,
     ''        <tr>'', nl,
     ''          <th rowspan="2" style="vertical-align: middle;">URL</th>'', nl,
     ''          <th colspan="4" class="device-header">'', [CHR 0xF0, CHR 0x9F, CHR 0x96, CHR 0xA5], [CHR 0xEF, CHR 0xB8, CHR 0x8F], '' DESKTOP</th>'', nl,
     ''          <th colspan="4" class="device-header">'', [CHR 0xF0, CHR 0x9F, CHR 0x93, CHR 0xB1], '' MOBILE</th>'', nl,
     ''        </tr>'', nl,
     ''        <tr>'', nl,
     ''          <th>Perf</th>'', nl,
     ''          <th>Acc</th>'', nl,
     ''          <th>BP</th>'', nl,
     ''          <th>SEO</th>'', nl,
     ''          <th>Perf</th>'', nl,
     ''          <th>Acc</th>'', nl,
     ''          <th>BP</th>'', nl,
     ''          <th>SEO</th>'', nl,
     ''        </tr>'', nl,
     ''      </thead>'', nl,
     ''      <tbody>'', nl]\<close>

definition html_row :: "env \<Rightarrow> url_result \<Rightarrow> string" where
  \<open>html_row E result = concat [
     ''        <tr>'', nl,
     ''          <td class="url-cell" title="'', url result, ''">'', url result, ''</td>'', nl,
     ''          <td class="score">'', getEmojiHTML (performance (desktop result)), '' '', coalesce E (performance (desktop result)) ''ERR'', ''</td>'', nl,
     ''          <td class="score">'', getEmojiHTML (accessibility (desktop result)), '' '', coalesce E (accessibility (desktop result)) ''ERR'', ''</td>'', nl,
     ''          <td class="score">'', getEmojiHTML (bestPractices (desktop result)), '' '', coalesce E (bestPractices (desktop result)) ''ERR'', ''</td>'', nl,
     ''          <td class="score">'', getEmojiHTML (seo (desktop result)), '' '', coalesce E (seo (desktop result)) ''ERR'', ''</td>'', nl,
     ''          <td class="score">'', getEmojiHTML (performance (mobile result)), '' '', coalesce E (performance (mobile result)) ''ERR'', ''</td>'', nl,
     ''          <td class="score">'', getEmojiHTML (accessibility (mobile result)), '' '', coalesce E (accessibility (mobile result)) ''ERR'', ''</td>'', nl,
     ''          <td class="score">'', getEmojiHTML (bestPractices (mobile result)), '' '', coalesce E (bestPractices (mobile result)) ''ERR'', ''</td>'', nl,
     ''          <td class="score">'', getEmojiHTML (seo (mobile result)), '' '', coalesce E (seo (mobile result)) ''ERR'', ''</td>'', nl,
     ''        </tr>'', nl]\<close>

definition html_tail :: "string" where
  \<open>html_tail = concat [
     ''      </tbody>'', nl,
     ''    </table>'', nl,
     ''    '', nl,
     ''    <div class="footer">'', nl,
     ''      <p>'', [CHR 0xF0, CHR 0x9F, CHR 0x9F, CHR 0xA2], '' '', [CHR 0xE2, CHR 0x89, CHR 0xA5], ''90 | '', [CHR 0xF0, CHR 0x9F, CHR 0x9F, CHR 0xA1], '' 50-89 | '', [CHR 0xF0, CHR 0x9F, CHR 0x94, CHR 0xB4], '' <50</p>'', nl,
     ''      <p>Generado autom'', [CHR 0xC3, CHR 0xA1], ''ticamente por Lighthouse Analyzer</p>'', nl,
     ''      <p style="margin-top: 20px; padding-top: 15px; border-top: 1px solid #ddd; font-size: 13px; color: #495057;">'', nl,
     ''        <strong>Leyenda de m'', [CHR 0xC3, CHR 0xA9], ''tricas:</strong><br>'', nl,
     ''        <span style="display: inline-block; margin-right: 15px;">'', [CHR 0xE2, CHR 0x9A, CHR 0xA1], '' <strong>Perf</strong> = Performance</span>'', nl,
     ''        <span style="display: inline-block; margin-right: 15px;">'', [CHR 0xE2, CHR 0x99, CHR 0xBF], '' <strong>Acc</strong> = Accessibility</span>'', nl,
     ''        <span style="display: inline-block; margin-right: 15px;">'', [CHR 0xE2, CHR 0x9C, CHR 0xA8], '' <strong>BP</strong> = Best Practices</span>'', nl,
     ''        <span style="display: inline-block;">'', [CHR 0xF0, CHR 0x9F, CHR 0x94, CHR 0x8D], '' <strong>SEO</strong> = Search Engine Optimization</span>'', nl,
     ''      </p>'', nl,
     ''    </div>'', nl,
     ''    '', nl,
     ''  </div>'', nl,
     ''</body>'', nl,
     ''</html>'']\<close>


definition htmlContent :: "env \<Rightarrow> string \<Rightarrow> url_result list \<Rightarrow> string" where
  "htmlContent E date results =
     html_head E date results @ concat (map (html_row E) results) @ html_tail"

definition generateSimplifiedHTMLEmail :: "env \<Rightarrow> url_result list \<Rightarrow> world \<Rightarrow> string \<times> world" where
  "generateSimplifiedHTMLEmail E results w =
    (let (d1, w1) = new_Date E w;
         date = toLocaleString d1;
         html = htmlContent E date results;
         (d2, w2) = new_Date E w1;
         timestamp = slice_0_minus5 (replace_colon_dot (toISOString d2));
         filename = ''lighthouse_email_'' @ timestamp @ ''.html''
     in (filename, writeFileSync filename (Text html) w2))"

section \<open>The program\<close>

text \<open>
  The top level of the module, from reading the variable to \<^verbatim>\<open>process.exit\<close>: the
  exit code and the state the run ends in. Writing a file does not fail in this model
  and the orchestrator catches what an audit throws, so the \<^verbatim>\<open>catch\<close> of the top level
  is not reached.
\<close>

definition parse_urls :: "string \<Rightarrow> string list" where
  "parse_urls urlsFromEnv =
     filter (\<lambda>u. length u > 0) (map trim (split_str CHR '','' urlsFromEnv))"

text \<open>The function that the top level passes to \<^verbatim>\<open>then\<close>: the three emitters in turn.\<close>

definition emit_reports ::
  "env \<Rightarrow> url_result list \<Rightarrow> world \<Rightarrow> (string \<times> string \<times> string) \<times> world" where
  "emit_reports E results w =
    (let (csvFilename, w1) = saveResultsToCSV E results w;
         (htmlFilename, w2) = generateSimplifiedHTMLEmail E results w1;
         (historyFilename, w3) = saveHistoricalData E results w2
     in ((csvFilename, htmlFilename, historyFilename), w3))"

definition main :: "env \<Rightarrow> world \<Rightarrow> nat \<times> world" where
  "main E w =
    (let urlsFromEnv = (case LIGHTHOUSE_URLS E of None \<Rightarrow> [] | Some s \<Rightarrow> s)
     in if urlsFromEnv = [] \<or> trim urlsFromEnv = [] then (1, w)
        else
          (let urls = parse_urls urlsFromEnv
           in if length urls = 0 then (1, w)
              else
                (let (results, w1) = analyzeUrls E urls w;
                     (names, w2) = emit_reports E results w1
                 in (0, w2))))"

section \<open>Notions used to state the properties\<close>

subsection \<open>Scores next to a tie of rounding\<close>


subsection \<open>The invocations of a run\<close>

text \<open>
  What the environment answers to the invocation for \<open>preset\<close> of the URL at index
  \<open>i\<close>, in a run whose loop starts in the state \<open>w\<close>. The URL's mobile invocation is
  preceded by the two invocations, and the two clock readings, of each earlier URL;
  its desktop invocation comes one later.
\<close>

definition outcome :: "env \<Rightarrow> world \<Rightarrow> string list \<Rightarrow> nat \<Rightarrow> string \<Rightarrow> js_error + report" where
  "outcome E w urls i preset =
     (let k = 2 * i + (if preset = ''desktop'' then 1 else 0)
      in exec E (length (invocations w) + k)
           (command (urls ! i) preset (tempFile E preset (clock E (ticks w + k)))))"

definition result_at :: "env \<Rightarrow> world \<Rightarrow> string list \<Rightarrow> nat \<Rightarrow> url_result" where
  "result_at E w urls i =
     \<lparr>url = urls ! i,
      desktop = metrics_of (outcome E w urls i ''desktop''),
      mobile = metrics_of (outcome E w urls i ''mobile'')\<rparr>"

subsection \<open>Rows and columns of a delimited text\<close>

text \<open>
  A row ends at a line feed or at the end of the text, so a text that ends with a
  line feed has no row after it. The columns of a row are separated by commas.
\<close>

definition rows :: "string \<Rightarrow> string list" where
  "rows s = (let ps = split_str (CHR 0x0A) s in if last ps = [] then butlast ps else ps)"

definition columns :: "string \<Rightarrow> string list" where
  "columns row = split_str CHR '','' row"

text \<open>The nine metric values of a Metric Set, in the order of the columns.\<close>

definition metric_values :: "metrics \<Rightarrow> jsval list" where
  "metric_values m =
     [performance m, accessibility m, bestPractices m, seo m, fcp m, lcp m, tbt m, cls m, si m]"

text \<open>The cell of a metric value in the tabular export.\<close>

definition cell :: "env \<Rightarrow> jsval \<Rightarrow> string" where
  "cell E v = (if v = Null \<or> v = Undefined then ''ERROR'' else to_text E v)"

text \<open>The header of the tabular export without the line feed that ends it.\<close>

definition header_row :: string where
  "header_row = butlast csvHeader"

text \<open>The content of the file of that name, as the latest write left it.\<close>

definition file_content :: "world \<Rightarrow> string \<Rightarrow> content option" where
  "file_content w filename = map_of (files w) filename"

text \<open>The timestamp that the name of an artifact carries, for a reading of the clock.\<close>

definition file_timestamp :: "date \<Rightarrow> string" where
  "file_timestamp d = slice_0_minus5 (replace_colon_dot (toISOString d))"

subsection \<open>Reading an archive back\<close>

text \<open>
  Modelled from the spec: the reader of an archive file (``deserializing a written
  archive file''), which is not part of \<^verbatim>\<open>analyzer.js\<close>. It takes the document that
  \<^verbatim>\<open>JSON.parse\<close> gives for the file and reads the properties that the writer wrote:
  the two timestamp strings and, for every URL, the two Metric Sets. A property that
  is not in the document reads as \<^verbatim>\<open>undefined\<close>; a document of another shape is
  refused.
\<close>

fun val_of_json :: "json option \<Rightarrow> jsval option" where
  "val_of_json None = Some Undefined"
| "val_of_json (Some JNull) = Some Null"
| "val_of_json (Some (JNumber x)) = Some (Num x)"
| "val_of_json (Some _) = None"

text \<open>
  Modelled from the spec: reading back the \<^verbatim>\<open>error\<close> property of a Metric Set, which
  is a string when it is there.
\<close>

fun error_of_json :: "json option \<Rightarrow> string option option" where
  "error_of_json None = Some None"
| "error_of_json (Some (JString e)) = Some (Some e)"
| "error_of_json (Some _) = None"

text \<open>Modelled from the spec: reading back a Metric Set, property by property.\<close>

fun metrics_of_json :: "json \<Rightarrow> metrics option" where
  "metrics_of_json (JObject kvs) = do {
     p \<leftarrow> val_of_json (map_of kvs ''performance'');
     a \<leftarrow> val_of_json (map_of kvs ''accessibility'');
     b \<leftarrow> val_of_json (map_of kvs ''bestPractices'');
     s \<leftarrow> val_of_json (map_of kvs ''seo'');
     f \<leftarrow> val_of_json (map_of kvs ''fcp'');
     l \<leftarrow> val_of_json (map_of kvs ''lcp'');
     t \<leftarrow> val_of_json (map_of kvs ''tbt'');
     c \<leftarrow> val_of_json (map_of kvs ''cls'');
     i \<leftarrow> val_of_json (map_of kvs ''si'');
     e \<leftarrow> error_of_json (map_of kvs ''error'');
     Some \<lparr>performance = p, accessibility = a, bestPractices = b, seo = s,
           fcp = f, lcp = l, tbt = t, cls = c, si = i, error = e\<rparr>
   }"
| "metrics_of_json _ = None"

text \<open>Modelled from the spec: reading back a URL Result.\<close>

fun result_of_json :: "json \<Rightarrow> url_result option" where
  "result_of_json (JObject kvs) =
     (case (map_of kvs ''url'', map_of kvs ''desktop'', map_of kvs ''mobile'') of
        (Some (JString u), Some jd, Some jm) \<Rightarrow> do {
           d \<leftarrow> metrics_of_json jd;
           m \<leftarrow> metrics_of_json jm;
           Some \<lparr>url = u, desktop = d, mobile = m\<rparr>
        }
      | _ \<Rightarrow> None)"
| "result_of_json _ = None"

text \<open>
  Modelled from the spec: reading back a Historical Record, that is the raw timestamp,
  the locale-formatted one, and the Batch Result.
\<close>

fun read_archive :: "json \<Rightarrow> (string \<times> string \<times> url_result list) option" where
  "read_archive (JObject kvs) =
     (case (map_of kvs ''timestamp'', map_of kvs ''date'', map_of kvs ''results'') of
        (Some (JString t), Some (JString d), Some (JArray rs)) \<Rightarrow>
           map_option (\<lambda>results. (t, d, results)) (those (map result_of_json rs))
      | _ \<Rightarrow> None)"
| "read_archive _ = None"

text \<open>
  The metric values that have a JSON text of their own: the absent ones and the
  finite numbers other than negative zero.
\<close>

fun archivable :: "jsval \<Rightarrow> bool" where
  "archivable NaN = False"
| "archivable Infinity = False"
| "archivable MinusInfinity = False"
| "archivable MinusZero = False"
| "archivable _ = True"

text \<open>Writing the archive of \<open>results\<close> in the state \<open>w\<close>, and reading the written file.\<close>

definition write_then_read ::
  "env \<Rightarrow> url_result list \<Rightarrow> world \<Rightarrow> (string \<times> string \<times> url_result list) option" where
  "write_then_read E results w =
     (case saveHistoricalData E results w of
        (filename, w') \<Rightarrow>
          (case file_content w' filename of
             Some (Document doc) \<Rightarrow> read_archive doc
           | _ \<Rightarrow> None))"

subsection \<open>Sample data\<close>

text \<open>
  A decimal text for a number: the digits of the whole part and, for a number that is
  not whole, a point and up to 17 digits after it.
\<close>

fun digits :: "nat \<Rightarrow> string" where
  "digits n =
     (if n < 10 then [''0123456789'' ! n]
      else digits (n div 10) @ [''0123456789'' ! (n mod 10)])"

declare digits.simps [simp del]

fun frac_digits :: "nat \<Rightarrow> rat \<Rightarrow> string" where
  "frac_digits 0 x = []"
| "frac_digits (Suc n) x =
     (if x = 0 then []
      else (let y = x * 10
            in (''0123456789'' ! (nat \<lfloor>y\<rfloor> mod 10)) # frac_digits n (y - of_int \<lfloor>y\<rfloor>)))"

definition unsigned_text :: "rat \<Rightarrow> string" where
  "unsigned_text x =
     digits (nat \<lfloor>x\<rfloor>)
     @ (if x = of_int \<lfloor>x\<rfloor> then [] else ''.'' @ frac_digits 17 (x - of_int \<lfloor>x\<rfloor>))"

definition decimal_text :: "rat \<Rightarrow> string" where
  "decimal_text x = (if x < 0 then ''-'' @ unsigned_text (- x) else unsigned_text x)"

definition sample_report :: report where
  "sample_report =
    \<lparr>categories = Some
       \<lparr>c_performance = Some \<lparr>score = Num (93 / 100)\<rparr>,
        c_accessibility = Some \<lparr>score = Num 1\<rparr>,
        c_best_practices = Some \<lparr>score = Num (96 / 100)\<rparr>,
        c_seo = Some \<lparr>score = Num (9 / 10)\<rparr>\<rparr>,
     audits = Some
       \<lparr>first_contentful_paint = Some \<lparr>numericValue = Num (8123 / 10)\<rparr>,
        largest_contentful_paint = Some \<lparr>numericValue = Num 1500\<rparr>,
        total_blocking_time = Some \<lparr>numericValue = Num 120\<rparr>,
        cumulative_layout_shift = Some \<lparr>numericValue = Num (1 / 8)\<rparr>,
        speed_index = Some \<lparr>numericValue = Num (9004 / 10)\<rparr>\<rparr>\<rparr>"

text \<open>A report of a page that blocks for 0 ms and does not shift.\<close>

definition report_zero_shift :: report where
  "report_zero_shift =
    \<lparr>categories = Some
       \<lparr>c_performance = Some \<lparr>score = Num (93 / 100)\<rparr>,
        c_accessibility = Some \<lparr>score = Num 1\<rparr>,
        c_best_practices = Some \<lparr>score = Num (96 / 100)\<rparr>,
        c_seo = Some \<lparr>score = Num (9 / 10)\<rparr>\<rparr>,
     audits = Some
       \<lparr>first_contentful_paint = Some \<lparr>numericValue = Num (8123 / 10)\<rparr>,
        largest_contentful_paint = Some \<lparr>numericValue = Num 1500\<rparr>,
        total_blocking_time = Some \<lparr>numericValue = Num 0\<rparr>,
        cumulative_layout_shift = Some \<lparr>numericValue = Num 0\<rparr>,
        speed_index = Some \<lparr>numericValue = Num (9004 / 10)\<rparr>\<rparr>\<rparr>"

text \<open>A report whose performance category could not be scored.\<close>

definition report_null_score :: report where
  "report_null_score =
    \<lparr>categories = Some
       \<lparr>c_performance = Some \<lparr>score = Null\<rparr>,
        c_accessibility = Some \<lparr>score = Num 1\<rparr>,
        c_best_practices = Some \<lparr>score = Num (96 / 100)\<rparr>,
        c_seo = Some \<lparr>score = Num (9 / 10)\<rparr>\<rparr>,
     audits = Some
       \<lparr>first_contentful_paint = None,
        largest_contentful_paint = None,
        total_blocking_time = None,
        cumulative_layout_shift = None,
        speed_index = None\<rparr>\<rparr>"

text \<open>A report whose performance category has no \<^verbatim>\<open>score\<close> property.\<close>

definition report_no_score :: report where
  "report_no_score =
    \<lparr>categories = Some
       \<lparr>c_performance = Some \<lparr>score = Undefined\<rparr>,
        c_accessibility = Some \<lparr>score = Num 1\<rparr>,
        c_best_practices = Some \<lparr>score = Num (96 / 100)\<rparr>,
        c_seo = Some \<lparr>score = Num (9 / 10)\<rparr>\<rparr>,
     audits = Some
       \<lparr>first_contentful_paint = None,
        largest_contentful_paint = None,
        total_blocking_time = None,
        cumulative_layout_shift = None,
        speed_index = None\<rparr>\<rparr>"

text \<open>A clock that shows the next second each time it is read.\<close>

definition ticking_clock :: "nat \<Rightarrow> date" where
  "ticking_clock k =
     \<lparr>millis = 1704067200000 + 1000 * k,
      toISOString = ''2024-01-01T00:00:'' @ digits (k div 10 mod 6) @ digits (k mod 10) @ ''.000Z'',
      toLocaleString = ''lunes, 1 de enero de 2024, 1:00''\<rparr>"

text \<open>A clock that stands still.\<close>

definition still_clock :: "nat \<Rightarrow> date" where
  "still_clock k = ticking_clock 0"

text \<open>
  An engine whose third invocation (the mobile audit of the second URL) exits with
  an error, every other one giving \<open>sample_report\<close>.
\<close>

definition sample_exec :: "nat \<Rightarrow> string \<Rightarrow> js_error + report" where
  "sample_exec k cmd = (if k = 2 then Inl (Failed ''Command failed'') else Inr sample_report)"

definition sample_env :: env where
  "sample_env =
    \<lparr>LIGHTHOUSE_URLS = Some ''https://a.example,https://b.example'',
     clock = ticking_clock, exec = sample_exec, toString = decimal_text\<rparr>"

text \<open>An engine that gives \<open>report_no_score\<close> every time.\<close>

definition env_no_score :: env where
  "env_no_score = sample_env\<lparr>exec := (\<lambda>k cmd. Inr report_no_score)\<rparr>"

definition sample_metrics :: metrics where
  "sample_metrics =
     \<lparr>performance = Num 93, accessibility = Num 100, bestPractices = Num 96, seo = Num 90,
      fcp = Num 812, lcp = Num 1500, tbt = Num 120, cls = Num (1 / 8), si = Num 900,
      error = None\<rparr>"

definition sample_results :: "url_result list" where
  "sample_results =
     [\<lparr>url = ''https://a.example'', desktop = sample_metrics, mobile = sample_metrics\<rparr>,
      \<lparr>url = ''https://b.example'', desktop = sample_metrics,
       mobile = failed ''Command failed''\<rparr>]"

text \<open>A URL with a line feed inside it, as a variable of several lines can hold.\<close>

definition url_of_two_lines :: string where
  "url_of_two_lines = ''https://a.example/x'' @ [CHR 0x0A] @ ''y''"

definition start :: world where
  "start = \<lparr>ticks = 0, invocations = [], dirs = [], files = []\<rparr>"

section \<open>Facts about rounding to a double\<close>

lemma floor_rat_numeral [simp]:
  "\<lfloor>numeral a / numeral b :: rat\<rfloor> = numeral a div numeral b"
  using floor_divide_of_int_eq [of "numeral a" "numeral b", where ?'a = rat] by simp

lemma floor_rat_one_numeral [simp]:
  "\<lfloor>1 / numeral b :: rat\<rfloor> = 1 div numeral b"
  using floor_divide_of_int_eq [of 1 "numeral b", where ?'a = rat] by simp

lemma powi_nonneg: "0 \<le> e \<Longrightarrow> (2::rat) powi e = 2 ^ nat e"
  by (simp add: power_int_def)


lemma powi_less_cancel:
  assumes "(2::rat) powi a < 2 powi b"
  shows "a < b"
proof (rule ccontr)
  assume "\<not> a < b"
  then have "(2::rat) powi b \<le> 2 powi a"
    by (intro power_int_increasing) simp_all
  with assms show False by simp
qed

lemma bitlen_rat_bounds:
  assumes "0 < a"
  shows "(2::rat) powi (bitlen a - 1) \<le> of_int a" and "(of_int a :: rat) < 2 powi (bitlen a)"
proof -
  from assms have p: "1 \<le> bitlen a"
    by (auto simp: bitlen_alt_def)
  from bitlen_bounds [OF assms]
  have l: "2 ^ nat (bitlen a - 1) \<le> a" and u: "a < 2 ^ nat (bitlen a)"
    by simp_all
  from l have "(of_int (2 ^ nat (bitlen a - 1)) :: rat) \<le> of_int a"
    by (simp only: of_int_le_iff)
  with p show "(2::rat) powi (bitlen a - 1) \<le> of_int a"
    by (simp add: powi_nonneg)
  from u have "(of_int a :: rat) < of_int (2 ^ nat (bitlen a))"
    by (simp only: of_int_less_iff)
  with p show "(of_int a :: rat) < 2 powi (bitlen a)"
    by (simp add: powi_nonneg)
qed

lemma binade_bounds:
  assumes "0 < x"
  shows "2 powi (binade x) \<le> x" and "x < 2 powi (binade x + 1)"
proof -
  obtain a b where q: "quotient_of x = (a, b)"
    by (cases "quotient_of x")
  then have b: "0 < b" and x: "x = of_int a / of_int b"
    by (simp_all add: quotient_of_denom_pos quotient_of_div)
  with assms have a: "0 < a"
    by (simp add: zero_less_divide_iff)
  let ?e = "bitlen a - bitlen b"
  note A = bitlen_rat_bounds [OF a] and B = bitlen_rat_bounds [OF b]
  have pb: "(0::rat) < 2 powi (bitlen b - 1)" and pb': "(0::rat) < 2 powi (bitlen b)"
    by simp_all
  have "x < 2 powi (bitlen a) / 2 powi (bitlen b - 1)"
    unfolding x using a A(2) pb B(1) by (intro frac_less) simp_all
  also have "\<dots> = 2 powi (?e + 1)"
    by (simp add: power_int_diff [symmetric] algebra_simps)
  finally have up: "x < 2 powi (?e + 1)" .
  have "2 powi (bitlen a - 1) / 2 powi (bitlen b) \<le> x"
    unfolding x using a b A(1) B(2) by (intro frac_le) simp_all
  moreover have "(2::rat) powi (bitlen a - 1) / 2 powi (bitlen b) = 2 powi (?e - 1)"
    by (simp add: power_int_diff [symmetric] algebra_simps)
  ultimately have low: "2 powi (?e - 1) \<le> x" by simp
  show "2 powi (binade x) \<le> x"
    using low by (simp add: binade_def q Let_def)
  show "x < 2 powi (binade x + 1)"
    using up by (simp add: binade_def q Let_def not_le)
qed

lemma binade_less:
  assumes "0 < x" and "x < 2 powi E"
  shows "binade x < E"
  using binade_bounds(1) [OF assms(1)] assms(2) by (intro powi_less_cancel) simp

lemma round_half_even_le:
  assumes "q \<le> of_int K"
  shows "round_half_even q \<le> K"
proof -
  have f: "of_int \<lfloor>q\<rfloor> \<le> q" by simp
  with assms have n: "\<lfloor>q\<rfloor> \<le> K"
    by (simp add: floor_le_iff)
  show ?thesis
  proof (cases "q - of_int \<lfloor>q\<rfloor> < 1 / 2")
    case True
    with n show ?thesis by (simp add: round_half_even_def Let_def)
  next
    case False
    then have "of_int \<lfloor>q\<rfloor> < q" by simp
    with assms have "(of_int \<lfloor>q\<rfloor> :: rat) < of_int K" by simp
    then have "\<lfloor>q\<rfloor> < K" by (simp only: of_int_less_iff)
    with False show ?thesis by (simp add: round_half_even_def Let_def)
  qed
qed

lemma round_half_even_ge:
  assumes "of_int K \<le> q"
  shows "K \<le> round_half_even q"
proof -
  from assms have "K \<le> \<lfloor>q\<rfloor>" by (simp add: le_floor_iff)
  then show ?thesis by (simp add: round_half_even_def Let_def)
qed


lemma nearest_double_pos:
  assumes "0 < x"
  shows "nearest_double x =
     of_int (round_half_even (x / 2 powi (max (binade x) (- 1022) - 52)))
       * 2 powi (max (binade x) (- 1022) - 52)"
  using assms by (simp add: nearest_double_def Let_def)

lemma nearest_double_nonneg:
  assumes "0 \<le> x"
  shows "0 \<le> nearest_double x"
proof (cases "x = 0")
  case True
  then show ?thesis by (simp add: nearest_double_def)
next
  case False
  with assms have x: "0 < x" by simp
  let ?q = "(2::rat) powi (max (binade x) (- 1022) - 52)"
  have "of_int 0 \<le> x / ?q" using x by simp
  then have "0 \<le> round_half_even (x / ?q)" by (rule round_half_even_ge)
  then show ?thesis
    by (simp add: nearest_double_pos [OF x])
qed




lemma nearest_double_0 [simp]: "nearest_double 0 = 0"
  by (simp add: nearest_double_def)

lemma to_double_0 [simp]: "to_double 0 = Num 0"
  by (simp add: to_double_def)


lemma binade_eqI:
  assumes "0 < x" and "2 powi e \<le> x" and "x < 2 powi (e + 1)"
  shows "binade x = e"
proof -
  from binade_bounds(1) [OF assms(1)] assms(3) have "2 powi (binade x) < (2::rat) powi (e + 1)"
    by simp
  then have "binade x < e + 1" by (rule powi_less_cancel)
  moreover from binade_bounds(2) [OF assms(1)] assms(2) have "(2::rat) powi e < 2 powi (binade x + 1)"
    by simp
  then have "e < binade x + 1" by (rule powi_less_cancel)
  ultimately show ?thesis by simp
qed

lemma round_half_even_eqI:
  assumes "\<bar>of_int n - q\<bar> < 1 / 2"
  shows "round_half_even q = n"
proof (cases "of_int n \<le> q")
  case True
  with assms have "\<lfloor>q\<rfloor> = n" by (intro floor_unique) (simp_all add: abs_less_iff)
  with assms True show ?thesis
    by (simp add: round_half_even_def Let_def abs_less_iff)
next
  case False
  with assms have "\<lfloor>q\<rfloor> = n - 1" by (intro floor_unique) (simp_all add: abs_less_iff)
  with assms False show ?thesis
    by (simp add: round_half_even_def Let_def abs_less_iff)
qed

text \<open>
  A double is rounded to itself, so \<open>parsed\<close> leaves the numbers of a report that are
  doubles as they are.
\<close>

lemma round_half_even_of_int: "round_half_even (of_int k) = k"
  by (simp add: round_half_even_def Let_def)

lemma powi_52: "(2::rat) powi e = of_int (2 ^ 52) * 2 powi (e - 52)"
proof -
  have "(2::rat) powi e = 2 powi (52 + (e - 52))"
    by (rule arg_cong [where f = "\<lambda>k. 2 powi k"]) simp
  also have "\<dots> = 2 powi 52 * 2 powi (e - 52)" by (rule power_int_add) simp
  finally show ?thesis by simp
qed

lemma powi_53: "(2::rat) powi (e + 1) = of_int (2 ^ 53) * 2 powi (e - 52)"
proof -
  have "(2::rat) powi (e + 1) = 2 powi (53 + (e - 52))"
    by (rule arg_cong [where f = "\<lambda>k. 2 powi k"]) simp
  also have "\<dots> = 2 powi 53 * 2 powi (e - 52)" by (rule power_int_add) simp
  finally show ?thesis by simp
qed

lemma nearest_double_on_grid:
  assumes "0 < y" and "y / 2 powi (max (binade y) (- 1022) - 52) = of_int n"
  shows "nearest_double y = y"
proof -
  let ?q = "(2::rat) powi (max (binade y) (- 1022) - 52)"
  have "nearest_double y = of_int (round_half_even (y / ?q)) * ?q"
    by (rule nearest_double_pos [OF assms(1)])
  also have "\<dots> = of_int n * ?q"
    by (simp only: assms(2) round_half_even_of_int)
  also have "\<dots> = y"
    by (simp add: assms(2) [symmetric])
  finally show ?thesis .
qed

lemma nearest_double_idem_pos:
  assumes x: "0 < x"
  shows "nearest_double (nearest_double x) = nearest_double x"
proof -
  define e where "e = max (binade x) (- 1022)"
  define q :: rat where "q = 2 powi (e - 52)"
  define n where "n = round_half_even (x / q)"
  define y where "y = nearest_double x"
  have y: "y = of_int n * q"
    unfolding y_def n_def q_def e_def by (rule nearest_double_pos [OF x])
  have q0: "0 < q" by (simp add: q_def)
  have e: "- 1022 \<le> e" by (simp add: e_def)
  have "of_int 0 \<le> x / q" using x q0 by simp
  then have n0: "0 \<le> n" unfolding n_def by (rule round_half_even_ge)
  have "x < 2 powi (binade x + 1)" by (rule binade_bounds(2) [OF x])
  also have "\<dots> \<le> 2 powi (e + 1)"
    by (intro power_int_increasing) (simp_all add: e_def)
  also have "\<dots> = of_int (2 ^ 53) * q" unfolding q_def by (rule powi_53)
  finally have "x / q \<le> of_int (2 ^ 53)"
    using q0 by (simp add: pos_divide_le_eq)
  then have n53: "n \<le> 2 ^ 53" unfolding n_def by (rule round_half_even_le)
  have yq: "y / 2 powi (e - 52) = of_int n"
    using q0 by (simp add: y q_def)
  show ?thesis
  proof (cases "n = 0")
    case True
    then have "y = 0" by (simp add: y)
    then show ?thesis unfolding y_def [symmetric] by simp
  next
    case False
    with n0 have np: "0 < n" by simp
    then have yp: "0 < y" using q0 by (simp add: y)
    consider "n = 2 ^ 53" | "2 ^ 52 \<le> n" "n < 2 ^ 53" | "n < 2 ^ 52"
      using n53 by linarith
    then have "\<exists>m. y / 2 powi (max (binade y) (- 1022) - 52) = of_int m"
    proof cases
      case 1
      have "y = of_int (2 ^ 53) * q" by (simp only: y 1)
      also have "\<dots> = 2 powi (e + 1)" unfolding q_def by (rule powi_53 [symmetric])
      finally have y1: "y = 2 powi (e + 1)" .
      have "binade y = e + 1"
        using yp
      proof (rule binade_eqI)
        show "2 powi (e + 1) \<le> y" by (simp add: y1)
        show "y < 2 powi (e + 1 + 1)"
          unfolding y1 by (intro power_int_strict_increasing) simp_all
      qed
      with e have m: "max (binade y) (- 1022) - 52 = e + 1 - 52" by simp
      have "(2::rat) powi (e + 1) = of_int (2 ^ 52) * 2 powi (e + 1 - 52)"
        by (rule powi_52)
      then have "y / 2 powi (e + 1 - 52) = of_int (2 ^ 52)"
        unfolding y1 by simp
      then show ?thesis unfolding m by blast
    next
      case 2
      from 2(1) have "(of_int (2 ^ 52) :: rat) \<le> of_int n"
        by (simp only: of_int_le_iff)
      then have "of_int (2 ^ 52) * q \<le> of_int n * q"
        using q0 by (intro mult_right_mono) simp_all
      moreover have "of_int (2 ^ 52) * q = 2 powi e"
        unfolding q_def by (rule powi_52 [symmetric])
      ultimately have l: "2 powi e \<le> y" by (simp only: y)
      from 2(2) have "(of_int n :: rat) < of_int (2 ^ 53)"
        by (simp only: of_int_less_iff)
      then have "of_int n * q < of_int (2 ^ 53) * q"
        using q0 by (intro mult_strict_right_mono) simp_all
      moreover have "of_int (2 ^ 53) * q = 2 powi (e + 1)"
        unfolding q_def by (rule powi_53 [symmetric])
      ultimately have u: "y < 2 powi (e + 1)" by (simp only: y)
      from yp l u have "binade y = e" by (rule binade_eqI)
      with e have m: "max (binade y) (- 1022) - 52 = e - 52" by simp
      from yq show ?thesis unfolding m by blast
    next
      case 3
      have "binade x < - 1022"
      proof (rule ccontr)
        assume "\<not> binade x < - 1022"
        then have ee: "e = binade x" by (simp add: e_def)
        have "of_int (2 ^ 52) * q = 2 powi e"
          unfolding q_def by (rule powi_52 [symmetric])
        also have "\<dots> \<le> x" unfolding ee by (rule binade_bounds(1) [OF x])
        finally have "of_int (2 ^ 52) \<le> x / q"
          using q0 by (simp only: pos_le_divide_eq)
        then have "2 ^ 52 \<le> n" unfolding n_def by (rule round_half_even_ge)
        with 3 show False by simp
      qed
      then have e1022: "e = - 1022" by (simp add: e_def)
      from 3 have "(of_int n :: rat) < of_int (2 ^ 52)"
        by (simp only: of_int_less_iff)
      then have "of_int n * q < of_int (2 ^ 52) * q"
        using q0 by (intro mult_strict_right_mono) simp_all
      moreover have "of_int (2 ^ 52) * q = 2 powi e"
        unfolding q_def by (rule powi_52 [symmetric])
      ultimately have "y < 2 powi e" by (simp only: y)
      then have "y < 2 powi (- 1022)" by (simp only: e1022)
      with yp have "binade y < - 1022" by (rule binade_less)
      then have m: "max (binade y) (- 1022) - 52 = e - 52" by (simp add: e1022)
      from yq show ?thesis unfolding m by blast
    qed
    then obtain m where "y / 2 powi (max (binade y) (- 1022) - 52) = of_int m" ..
    with yp have "nearest_double y = y" by (rule nearest_double_on_grid)
    then show ?thesis by (simp only: y_def)
  qed
qed

lemma nearest_double_minus: "nearest_double (- x) = - nearest_double x"
  by (simp add: nearest_double_def Let_def)

lemma nearest_double_idem: "nearest_double (nearest_double x) = nearest_double x"
proof -
  consider "x = 0" | "0 < x" | "0 < - x" by fastforce
  then show ?thesis
  proof cases
    case 1
    then show ?thesis by simp
  next
    case 2
    then show ?thesis by (rule nearest_double_idem_pos)
  next
    case 3
    then have "nearest_double (nearest_double (- x)) = nearest_double (- x)"
      by (rule nearest_double_idem_pos)
    then show ?thesis by (simp only: nearest_double_minus neg_equal_iff_equal)
  qed
qed

lemma to_double_idem:
  assumes "to_double x = Num y"
  shows "to_double y = Num y"
proof -
  from assms have y: "y = nearest_double x" and a: "\<not> 2 powi 1024 \<le> y"
    and b: "\<not> y \<le> - (2 powi 1024)"
    by (simp_all add: to_double_def Let_def split: if_splits)
  have "nearest_double y = y" by (simp only: y nearest_double_idem)
  with a b show ?thesis by (simp add: to_double_def Let_def)
qed

lemma parsed_idem: "parsed (parsed v) = parsed v"
proof (cases v)
  case (Num x)
  show ?thesis
  proof (cases "to_double x")
    case (Num y)
    from to_double_idem [OF this] Num show ?thesis by (simp add: \<open>v = Num x\<close>)
  qed (simp_all add: Num)
qed simp_all

text \<open>
  Checking a rounding: \<open>y\<close> is the double of \<open>x\<close> when \<open>x\<close> lies in the binade of \<open>e\<close> and
  \<open>y\<close> is the multiple \<open>n\<close> of the spacing there that is less than half a spacing away.
\<close>

lemma to_double_eqI:
  assumes "0 < x" and "2 powi e \<le> x" and "x < 2 powi (e + 1)" and "- 1022 \<le> e"
    and "\<bar>of_int n - x / 2 powi (e - 52)\<bar> < 1 / 2"
    and "y = of_int n * 2 powi (e - 52)" and "y < 2 powi 1024"
  shows "to_double x = Num y"
proof -
  have b: "binade x = e" using assms(1-3) by (rule binade_eqI)
  with assms(4) have m: "max (binade x) (- 1022) = e" by simp
  have "nearest_double x = y"
    by (simp add: nearest_double_pos [OF assms(1)] m round_half_even_eqI [OF assms(5)] assms(6))
  moreover from assms(1) have "0 \<le> nearest_double x"
    by (intro nearest_double_nonneg) simp
  moreover have "- ((2::rat) powi 1024) < 0" by simp
  ultimately show ?thesis
    using assms(1,7) by (simp add: to_double_def Let_def not_le)
qed

text \<open>What is at least \<open>2 powi 1024\<close> is rounded to \<^verbatim>\<open>Infinity\<close>.\<close>

lemma to_double_overflow:
  assumes "2 powi 1024 \<le> x"
  shows "to_double x = Infinity"
proof -
  have "(0::rat) < 2 powi 1024" by simp
  from this assms have x: "0 < x" by (rule less_le_trans)
  let ?q = "(2::rat) powi (binade x - 52)"
  from assms binade_bounds(2) [OF x] have "(2::rat) powi 1024 < 2 powi (binade x + 1)"
    by simp
  then have "1024 < binade x + 1" by (rule powi_less_cancel)
  then have b: "1024 \<le> binade x" and m: "max (binade x) (- 1022) = binade x"
    by simp_all
  have q0: "0 < ?q" by simp
  have "2 powi (binade x) / ?q \<le> x / ?q"
    using binade_bounds(1) [OF x] q0 by (simp only: divide_right_mono less_imp_le)
  moreover have "2 powi (binade x) / ?q = of_int (2 ^ 52)"
    by (simp add: power_int_diff)
  ultimately have "of_int (2 ^ 52) \<le> x / ?q" by simp
  then have "2 ^ 52 \<le> round_half_even (x / ?q)" by (rule round_half_even_ge)
  then have "(of_int (2 ^ 52) :: rat) \<le> of_int (round_half_even (x / ?q))"
    by (simp only: of_int_le_iff)
  then have A: "of_int (2 ^ 52) * ?q \<le> of_int (round_half_even (x / ?q)) * ?q"
    using q0 by (intro mult_right_mono) simp_all
  have B: "of_int (2 ^ 52) * ?q = 2 powi (binade x)"
    by (simp add: power_int_diff)
  have C: "(2::rat) powi 1024 \<le> 2 powi (binade x)"
    using b by (intro power_int_increasing) simp_all
  from C A [unfolded B] have "2 powi 1024 \<le> of_int (round_half_even (x / ?q)) * ?q"
    by (rule order_trans)
  then have "2 powi 1024 \<le> nearest_double x"
    by (simp only: nearest_double_pos [OF x] m)
  then show ?thesis by (simp add: to_double_def Let_def)
qed

text \<open>The roundings of the numbers of the sample reports, and of two more scores.\<close>

lemma parsed_93_100: "parsed (Num (93 / 100)) = Num (8376695306909123 / 9007199254740992)"
  by (simp only: parsed.simps times100.simps, rule to_double_eqI [where e = "- 1" and n = 8376695306909123]) simp_all

lemma times100_93_100: "times100 (Num (8376695306909123 / 9007199254740992)) = Num 93"
  by (simp only: parsed.simps times100.simps, rule to_double_eqI [where e = 6 and n = 6544293208522752]) simp_all

lemma parsed_1: "parsed (Num 1) = Num 1"
  by (simp only: parsed.simps times100.simps, rule to_double_eqI [where e = 0 and n = 4503599627370496]) simp_all

lemma times100_1: "times100 (Num 1) = Num 100"
  by (simp only: parsed.simps times100.simps, rule to_double_eqI [where e = 6 and n = 7036874417766400]) simp_all

lemma parsed_96_100: "parsed (Num (24 / 25)) = Num (1080863910568919 / 1125899906842624)"
  by (simp only: parsed.simps times100.simps, rule to_double_eqI [where e = "- 1" and n = 8646911284551352]) simp_all

lemma times100_96_100: "times100 (Num (1080863910568919 / 1125899906842624)) = Num 96"
  by (simp only: parsed.simps times100.simps, rule to_double_eqI [where e = 6 and n = 6755399441055744]) simp_all

lemma parsed_9_10: "parsed (Num (9 / 10)) = Num (8106479329266893 / 9007199254740992)"
  by (simp only: parsed.simps times100.simps, rule to_double_eqI [where e = "- 1" and n = 8106479329266893]) simp_all

lemma times100_9_10: "times100 (Num (8106479329266893 / 9007199254740992)) = Num 90"
  by (simp only: parsed.simps times100.simps, rule to_double_eqI [where e = 6 and n = 6333186975989760]) simp_all

lemma parsed_15_1000: "parsed (Num (3 / 200)) = Num (1080863910568919 / 72057594037927936)"
  by (simp only: parsed.simps times100.simps, rule to_double_eqI [where e = "- 7" and n = 8646911284551352]) simp_all

lemma times100_15_1000: "times100 (Num (1080863910568919 / 72057594037927936)) = Num (3 / 2)"
  by (simp only: parsed.simps times100.simps, rule to_double_eqI [where e = 0 and n = 6755399441055744]) simp_all

lemma parsed_285_1000: "parsed (Num (57 / 200)) = Num (5134103575202365 / 18014398509481984)"
  by (simp only: parsed.simps times100.simps, rule to_double_eqI [where e = "- 2" and n = 5134103575202365]) simp_all

lemma times100_285_1000: "times100 (Num (5134103575202365 / 18014398509481984)) = Num (8022036836253695 / 281474976710656)"
  by (simp only: parsed.simps times100.simps, rule to_double_eqI [where e = 4 and n = 8022036836253695]) simp_all

lemma parsed_8123_10: "parsed (Num (8123 / 10)) = Num (3572533180969779 / 4398046511104)"
  by (simp only: parsed.simps times100.simps, rule to_double_eqI [where e = 9 and n = 7145066361939558]) simp_all

lemma parsed_1500: "parsed (Num 1500) = Num 1500"
  by (simp only: parsed.simps times100.simps, rule to_double_eqI [where e = 10 and n = 6597069766656000]) simp_all

lemma parsed_120: "parsed (Num 120) = Num 120"
  by (simp only: parsed.simps times100.simps, rule to_double_eqI [where e = 6 and n = 8444249301319680]) simp_all

lemma parsed_9004_10: "parsed (Num (4502 / 5)) = Num (7920002157196083 / 8796093022208)"
  by (simp only: parsed.simps times100.simps, rule to_double_eqI [where e = 9 and n = 7920002157196083]) simp_all

lemma parsed_1_8: "parsed (Num (1 / 8)) = Num (1 / 8)"
  by (simp only: parsed.simps times100.simps, rule to_double_eqI [where e = "- 3" and n = 4503599627370496]) simp_all

lemma Math_round_samples:
  "Math_round (Num 93) = Num 93"
  "Math_round (Num 100) = Num 100"
  "Math_round (Num 96) = Num 96"
  "Math_round (Num 90) = Num 90"
  "Math_round (Num (3 / 2)) = Num 2"
  "Math_round (Num (8022036836253695 / 281474976710656)) = Num 28"
  "Math_round (Num (3572533180969779 / 4398046511104)) = Num 812"
  "Math_round (Num 1500) = Num 1500"
  "Math_round (Num 120) = Num 120"
  "Math_round (Num (7920002157196083 / 8796093022208)) = Num 900"
  "Math_round (Num (1 / 8)) = Num 0"
  by simp_all

lemmas double_samples =
  parsed_93_100 times100_93_100 parsed_1 times100_1 parsed_96_100 times100_96_100 parsed_9_10 times100_9_10 parsed_15_1000 times100_15_1000 parsed_285_1000 times100_285_1000 parsed_8123_10 parsed_1500 parsed_120 parsed_9004_10 parsed_1_8
  Math_round_samples

text \<open>
  Numbers beyond the range of a double: \<^verbatim>\<open>1e999\<close> is parsed to \<^verbatim>\<open>Infinity\<close>, and the
  product of \<^verbatim>\<open>1e307\<close> and 100 is \<^verbatim>\<open>Infinity\<close>. The double of 0.015 is parsed to itself.
\<close>

lemma parsed_1e999: "parsed (Num (10 ^ 999)) = Infinity"
proof -
  have "(2::rat) powi 1024 \<le> 10 ^ 309" by simp
  also have "\<dots> \<le> 10 ^ 999" by (intro power_increasing) simp_all
  finally show ?thesis by (simp only: parsed.simps to_double_overflow)
qed

lemma parsed_1e307:
  "parsed (Num (10 ^ 307)) = Num 9999999999999999860310597602564577717002641838126363875249660735883565852672743849064846414228960666786379280392654615393353172850252103336275952370615397010730691664689375178569039851073146339641623266071126720011020169553304018596457812688561947201171488461172921822139066929851282122002676667750021070848"
  by (simp only: parsed.simps, rule to_double_eqI [where e = 1019 and n = 8016673440035891]) simp_all

lemma times100_1e307:
  "times100 (Num 9999999999999999860310597602564577717002641838126363875249660735883565852672743849064846414228960666786379280392654615393353172850252103336275952370615397010730691664689375178569039851073146339641623266071126720011020169553304018596457812688561947201171488461172921822139066929851282122002676667750021070848) = Infinity"
  by (simp only: times100.simps, rule to_double_overflow) simp

lemma parsed_double_15_1000:
  "parsed (Num (1080863910568919 / 72057594037927936)) = Num (1080863910568919 / 72057594037927936)"
  by (simp only: parsed.simps, rule to_double_eqI [where e = "- 7" and n = 8646911284551352]) simp_all

section \<open>Facts about the metric extractor\<close>

lemma parsed_0 [simp]: "parsed (Num 0) = Num 0"
  by simp

lemma times100_0 [simp]: "times100 (Num 0) = Num 0"
  by simp

lemma extractMetrics_sample:
  "extractMetrics sample_report = Inr
     \<lparr>performance = Num 93, accessibility = Num 100, bestPractices = Num 96, seo = Num 90,
      fcp = Num 812, lcp = Num 1500, tbt = Num 120, cls = Num (1 / 8), si = Num 900,
      error = None\<rparr>"
  by (simp add: sample_report_def extractMetrics_def read_prop_def score100_def timing_def
      Let_def double_samples del: parsed.simps(1) times100.simps(7) Math_round.simps(7))










text \<open>
  Scores whose product with 100 is at a tie or next to one. The double of 0.015 lies
  below 0.015, its product with 100 is rounded to the double 1.5, and the field is 2;
  the product of the double of 0.285 and 100 is rounded to a double below 28.5, and the
  field is 28.
\<close>

lemma score100_near_a_tie:
  "score100 (Some \<lparr>score = Num (3 / 200)\<rparr>) = Inr (Num 2)"
  "score100 (Some \<lparr>score = Num (1080863910568919 / 72057594037927936)\<rparr>) = Inr (Num 2)"
  "score100 (Some \<lparr>score = Num (57 / 200)\<rparr>) = Inr (Num 28)"
  by (simp_all add: score100_def read_prop_def double_samples parsed_double_15_1000
      del: parsed.simps(1) times100.simps(7) Math_round.simps(7))

text \<open>A score whose product with 100 is beyond the range of a double.\<close>

lemma score100_overflow:
  "score100 (Some \<lparr>score = Num (10 ^ 307)\<rparr>) = Inr Infinity"
  by (simp only: score100_def read_prop_def option.case sum.case category.select_convs
      parsed_1e307 times100_1e307 Math_round.simps)

text \<open>
  Claim C3. Each timing field of the extracted Metric Set is absent if and only if the
  source audit entry lacks a numeric value; a numeric value of exactly 0 is extracted
  as 0. The extractor does otherwise: for a report whose total blocking time and
  cumulative layout shift are the number 0, \<^verbatim>\<open>tbt\<close> and \<^verbatim>\<open>cls\<close> come out \<^verbatim>\<open>null\<close>,
  because the test \<^verbatim>\<open>numericValue ? ... : null\<close> takes 0 for a missing value.
\<close>

theorem extractMetrics_zero_is_absent:
  "extractMetrics report_zero_shift = Inr
     \<lparr>performance = Num 93, accessibility = Num 100, bestPractices = Num 96, seo = Num 90,
      fcp = Num 812, lcp = Num 1500, tbt = Null, cls = Null, si = Num 900,
      error = None\<rparr>"
  by (simp add: report_zero_shift_def extractMetrics_def read_prop_def score100_def timing_def
      Let_def double_samples del: parsed.simps(1) times100.simps(7) Math_round.simps(7))



text \<open>
  Claim C10. For every report that contains all four category entries, a category
  whose score is \<^verbatim>\<open>null\<close> gets the score 0 in the extracted Metric Set, not an absent
  value and not an error, and the Metric Set is the one that the same report with the
  score 0 in that category gives. The extractor returns a Metric Set whenever the
  report has its \<^verbatim>\<open>audits\<close> object; without it the extractor throws on reading the
  first audit, whatever the scores are.
\<close>

theorem extractMetrics_null_score:
  assumes "categories rep = Some cs"
    and "c_performance cs = Some cp" and "c_accessibility cs = Some ca"
    and "c_best_practices cs = Some cb" and "c_seo cs = Some cse"
  shows "(\<forall>au. audits rep = Some au \<longrightarrow> (\<exists>m. extractMetrics rep = Inr m)) \<and>
    (audits rep = None \<longrightarrow> extractMetrics rep = Inl (TypeError ''first-contentful-paint'')) \<and>
    (\<forall>m. extractMetrics rep = Inr m \<longrightarrow>
      (score cp = Null \<longrightarrow> performance m = Num 0 \<and>
         extractMetrics (rep\<lparr>categories := Some (cs\<lparr>c_performance := Some (cp\<lparr>score := Num 0\<rparr>)\<rparr>)\<rparr>)
           = Inr m) \<and>
      (score ca = Null \<longrightarrow> accessibility m = Num 0 \<and>
         extractMetrics (rep\<lparr>categories := Some (cs\<lparr>c_accessibility := Some (ca\<lparr>score := Num 0\<rparr>)\<rparr>)\<rparr>)
           = Inr m) \<and>
      (score cb = Null \<longrightarrow> bestPractices m = Num 0 \<and>
         extractMetrics (rep\<lparr>categories := Some (cs\<lparr>c_best_practices := Some (cb\<lparr>score := Num 0\<rparr>)\<rparr>)\<rparr>)
           = Inr m) \<and>
      (score cse = Null \<longrightarrow> seo m = Num 0 \<and>
         extractMetrics (rep\<lparr>categories := Some (cs\<lparr>c_seo := Some (cse\<lparr>score := Num 0\<rparr>)\<rparr>)\<rparr>)
           = Inr m))"
proof (cases "audits rep")
  case None
  with assms show ?thesis
    by (simp add: extractMetrics_def read_prop_def score100_def)
next
  case (Some au)
  with assms show ?thesis
    by (auto simp: extractMetrics_def read_prop_def score100_def)
qed

theorem extractMetrics_null_score_witness:
  "\<exists>m. extractMetrics report_null_score = Inr m \<and> performance m = Num 0 \<and>
     extractMetrics (report_null_score\<lparr>categories := Some
        \<lparr>c_performance = Some \<lparr>score = Num 0\<rparr>,
         c_accessibility = Some \<lparr>score = Num 1\<rparr>,
         c_best_practices = Some \<lparr>score = Num (96 / 100)\<rparr>,
         c_seo = Some \<lparr>score = Num (9 / 10)\<rparr>\<rparr>\<rparr>) = Inr m"
  using extractMetrics_null_score [of report_null_score
      "\<lparr>c_performance = Some \<lparr>score = Null\<rparr>,
        c_accessibility = Some \<lparr>score = Num 1\<rparr>,
        c_best_practices = Some \<lparr>score = Num (96 / 100)\<rparr>,
        c_seo = Some \<lparr>score = Num (9 / 10)\<rparr>\<rparr>"
      "\<lparr>score = Null\<rparr>" "\<lparr>score = Num 1\<rparr>" "\<lparr>score = Num (96 / 100)\<rparr>"
      "\<lparr>score = Num (9 / 10)\<rparr>"]
  by (auto simp: report_null_score_def)

section \<open>Facts about the HTML indicator\<close>

text \<open>
  Claim C6. The traffic-light indicator of the HTML summary is green for a score of at
  least 90, yellow for a score from 50 up to (not including) 90, red for a score below
  50, and the neutral indicator for an absent score; 90 is green, 89 yellow, 49 red.
  The four indicators are four different strings.
\<close>

theorem getEmojiHTML_traffic_light:
  "(90 \<le> x \<longrightarrow> getEmojiHTML (Num x) = green_circle) \<and>
   (50 \<le> x \<and> x < 90 \<longrightarrow> getEmojiHTML (Num x) = yellow_circle) \<and>
   (x < 50 \<longrightarrow> getEmojiHTML (Num x) = red_circle) \<and>
   getEmojiHTML Null = black_circle \<and> getEmojiHTML Undefined = black_circle \<and>
   getEmojiHTML (Num 90) = green_circle \<and> getEmojiHTML (Num 89) = yellow_circle \<and>
   getEmojiHTML (Num 49) = red_circle \<and>
   distinct [green_circle, yellow_circle, red_circle, black_circle]"
  by (simp add: getEmojiHTML_def green_circle_def yellow_circle_def red_circle_def
      black_circle_def)

theorem getEmojiHTML_traffic_light_witness:
  "getEmojiHTML (Num 100) = green_circle \<and> getEmojiHTML (Num 72) = yellow_circle \<and>
   getEmojiHTML (Num 0) = red_circle"
  using getEmojiHTML_traffic_light [of 100] getEmojiHTML_traffic_light [of 72]
    getEmojiHTML_traffic_light [of 0]
  by simp

section \<open>Facts about the orchestrator\<close>

lemma audit_profile_eq:
  "audit_profile E u preset w =
     (metrics_of (exec E (length (invocations w))
        (command u preset (tempFile E preset (clock E (ticks w))))),
      w\<lparr>ticks := Suc (ticks w),
        invocations := invocations w @ [command u preset (tempFile E preset (clock E (ticks w)))]\<rparr>)"
  by (simp add: audit_profile_def runLighthouse_def new_Date_def Let_def)

text \<open>The loop from index i in a state that has seen t clock readings and n invocations.\<close>

lemma analyze_loop_fst:
  "i \<le> length urls \<Longrightarrow> ticks w = t + 2 * i \<Longrightarrow> length (invocations w) = n + 2 * i \<Longrightarrow>
   ticks w0 = t \<Longrightarrow> length (invocations w0) = n \<Longrightarrow>
   fst (analyze_loop E urls i results w) = results @ map (result_at E w0 urls) [i ..< length urls]"
proof (induction E urls i results w rule: analyze_loop.induct)
  case (1 E urls i results w)
  show ?case
  proof (cases "i < length urls")
    case False
    with "1.prems" show ?thesis
      by (subst analyze_loop.simps) simp
  next
    case True
    let ?u = "urls ! i"
    let ?cm = "command ?u ''mobile'' (tempFile E ''mobile'' (clock E (ticks w)))"
    let ?w1 = "w\<lparr>ticks := Suc (ticks w), invocations := invocations w @ [?cm]\<rparr>"
    let ?cd = "command ?u ''desktop'' (tempFile E ''desktop'' (clock E (ticks ?w1)))"
    let ?w2 = "?w1\<lparr>ticks := Suc (ticks ?w1), invocations := invocations ?w1 @ [?cd]\<rparr>"
    let ?m = "metrics_of (exec E (length (invocations w)) ?cm)"
    let ?d = "metrics_of (exec E (length (invocations ?w1)) ?cd)"
    let ?r = "\<lparr>url = ?u, desktop = ?d, mobile = ?m\<rparr>"
    have am: "audit_profile E ?u ''mobile'' w = (?m, ?w1)"
      by (rule audit_profile_eq)
    have ad: "audit_profile E ?u ''desktop'' ?w1 = (?d, ?w2)"
      by (rule audit_profile_eq)
    have step: "analyze_loop E urls i results w = analyze_loop E urls (Suc i) (results @ [?r]) ?w2"
      using True by (subst analyze_loop.simps) (simp only: am ad Let_def split if_True)
    have r: "?r = result_at E w0 urls i"
      using "1.prems" by (simp add: result_at_def outcome_def Let_def)
    have "fst (analyze_loop E urls (Suc i) (results @ [?r]) ?w2)
        = (results @ [?r]) @ map (result_at E w0 urls) [Suc i ..< length urls]"
      using True "1.prems"
      by (intro "1.IH" [OF True refl am [symmetric] refl ad [symmetric] refl]) simp_all
    with step r True show ?thesis
      by (simp add: upt_conv_Cons)
  qed
qed

lemma analyzeUrls_fst:
  "fst (analyzeUrls E urls w) = map (result_at E w urls) [0 ..< length urls]"
  using analyze_loop_fst [of 0 urls w "ticks w" "length (invocations w)" w E "[]"]
  by (simp add: analyzeUrls_def)

lemma length_analyzeUrls: "length (fst (analyzeUrls E urls w)) = length urls"
  by (simp add: analyzeUrls_fst)

lemma nth_analyzeUrls:
  "i < length urls \<Longrightarrow> fst (analyzeUrls E urls w) ! i = result_at E w urls i"
  by (simp add: analyzeUrls_fst)

lemma map_url_analyzeUrls: "map url (fst (analyzeUrls E urls w)) = urls"
proof -
  have "map url (fst (analyzeUrls E urls w)) = map (\<lambda>i. urls ! i) [0 ..< length urls]"
    by (simp add: analyzeUrls_fst result_at_def)
  then show ?thesis by (simp add: map_nth)
qed

text \<open>
  Claim C2. The Batch Result that the orchestrator returns has exactly one URL Result
  per input URL: its length is the length of the URL list, and its entries are in the
  order of the input URLs. (This holds for the empty list as well.)
\<close>

theorem analyzeUrls_one_result_per_url:
  "length (fst (analyzeUrls E urls w)) = length urls \<and>
   map url (fst (analyzeUrls E urls w)) = urls"
  by (simp add: length_analyzeUrls map_url_analyzeUrls)

text \<open>
  Claim C1. For every URL list and every URL in it (at index \<open>i\<close>): if the audit
  invocation for one profile fails, the URL's result stores for that profile a Metric
  Set with nine absent metric fields and the message of the error; the Metric Set of
  the other profile is the one that its own invocation gives, the extracted metrics if
  that invocation returned a report, the failure record if it failed (or if the
  extractor threw on its report); and the Batch Result covers every input URL.
\<close>

theorem analyzeUrls_profile_failure:
  assumes "i < length urls"
  shows "let results = fst (analyzeUrls E urls w); r = results ! i;
             om = outcome E w urls i ''mobile''; od = outcome E w urls i ''desktop''
         in map url results = urls \<and> url r = urls ! i \<and>
            mobile r = metrics_of om \<and> desktop r = metrics_of od \<and>
            (\<forall>e. om = Inl e \<longrightarrow> mobile r =
               \<lparr>performance = Null, accessibility = Null, bestPractices = Null, seo = Null,
                fcp = Null, lcp = Null, tbt = Null, cls = Null, si = Null,
                error = Some (message e)\<rparr>) \<and>
            (\<forall>e. od = Inl e \<longrightarrow> desktop r =
               \<lparr>performance = Null, accessibility = Null, bestPractices = Null, seo = Null,
                fcp = Null, lcp = Null, tbt = Null, cls = Null, si = Null,
                error = Some (message e)\<rparr>) \<and>
            (\<forall>rep m. om = Inr rep \<and> extractMetrics rep = Inr m \<longrightarrow> mobile r = m) \<and>
            (\<forall>rep m. od = Inr rep \<and> extractMetrics rep = Inr m \<longrightarrow> desktop r = m) \<and>
            (\<forall>rep e. om = Inr rep \<and> extractMetrics rep = Inl e \<longrightarrow>
               mobile r = failed (message e)) \<and>
            (\<forall>rep e. od = Inr rep \<and> extractMetrics rep = Inl e \<longrightarrow>
               desktop r = failed (message e))"
proof -
  have r: "fst (analyzeUrls E urls w) ! i = result_at E w urls i"
    using assms by (rule nth_analyzeUrls)
  show ?thesis
    unfolding Let_def r
    by (auto simp: map_url_analyzeUrls result_at_def metrics_of_def failed_def)
qed

theorem analyzeUrls_profile_failure_witness:
  "1 < length [''https://a.example'', ''https://b.example''] \<and>
   mobile (fst (analyzeUrls sample_env [''https://a.example'', ''https://b.example''] start) ! 1) =
     \<lparr>performance = Null, accessibility = Null, bestPractices = Null, seo = Null,
      fcp = Null, lcp = Null, tbt = Null, cls = Null, si = Null,
      error = Some ''Command failed''\<rparr> \<and>
   desktop (fst (analyzeUrls sample_env [''https://a.example'', ''https://b.example''] start) ! 1) =
     \<lparr>performance = Num 93, accessibility = Num 100, bestPractices = Num 96, seo = Num 90,
      fcp = Num 812, lcp = Num 1500, tbt = Num 120, cls = Num (1 / 8), si = Num 900,
      error = None\<rparr>"
proof -
  let ?urls = "[''https://a.example'', ''https://b.example'']"
  have h: "1 < length ?urls" by simp
  have om: "outcome sample_env start ?urls 1 ''mobile'' = Inl (Failed ''Command failed'')"
    by (simp add: outcome_def sample_env_def sample_exec_def start_def)
  have od: "outcome sample_env start ?urls 1 ''desktop'' = Inr sample_report"
    by (simp add: outcome_def sample_env_def sample_exec_def start_def)
  from analyzeUrls_profile_failure [OF h, of sample_env start] h show ?thesis
    unfolding Let_def om od
    by (simp add: metrics_of_def extractMetrics_sample failed_def)
qed

section \<open>Facts about the program\<close>

lemma parse_blank: "parse_urls '' , ,'' = []"
  by code_simp

text \<open>
  Claim C8. If the URL-list variable is not set, is empty or blank, or holds no URL
  after parsing, the program ends with exit code 1 in the state it started in: the
  audit engine has not been invoked and no file or directory has been written.
\<close>

theorem main_no_urls:
  assumes "LIGHTHOUSE_URLS E = None \<or>
           (\<exists>s. LIGHTHOUSE_URLS E = Some s \<and> (s = [] \<or> trim s = [] \<or> parse_urls s = []))"
  shows "main E w = (1, w) \<and> fst (main E w) = 1 \<and>
         invocations (snd (main E w)) = invocations w \<and>
         files (snd (main E w)) = files w \<and> dirs (snd (main E w)) = dirs w"
proof -
  from assms have "main E w = (1, w)"
    by (auto simp: main_def Let_def)
  then show ?thesis by simp
qed

theorem main_no_urls_witness:
  "main (sample_env\<lparr>LIGHTHOUSE_URLS := Some '' , ,''\<rparr>) start = (1, start) \<and>
   invocations (snd (main (sample_env\<lparr>LIGHTHOUSE_URLS := Some '' , ,''\<rparr>) start)) = [] \<and>
   files (snd (main (sample_env\<lparr>LIGHTHOUSE_URLS := Some '' , ,''\<rparr>) start)) = []"
  using main_no_urls [of "sample_env\<lparr>LIGHTHOUSE_URLS := Some '' , ,''\<rparr>" start] parse_blank
  by (simp add: start_def)

section \<open>Facts about the historical archive\<close>

text \<open>What \<^verbatim>\<open>JSON.stringify\<close> writes for the numbers that JSON cannot tell apart.\<close>

lemma json_of_val_not_archivable:
  "json_of_val NaN = Some JNull"
  "json_of_val Infinity = Some JNull"
  "json_of_val MinusInfinity = Some JNull"
  "json_of_val MinusZero = Some (JNumber 0)"
  by simp_all

lemma field_read_back:
  "map_of rest k = None \<Longrightarrow> archivable v \<Longrightarrow>
   val_of_json (map_of (json_field k v @ rest) k) = Some v"
  by (cases v) (simp_all add: json_field_def)

lemma field_skip:
  "k \<noteq> k' \<Longrightarrow> map_of (json_field k v @ rest) k' = map_of rest k'"
  by (cases v) (simp_all add: json_field_def)

lemma error_field_skip:
  "k \<noteq> ''error'' \<Longrightarrow>
   map_of (case e of None \<Rightarrow> [] | Some x \<Rightarrow> [(''error'', JString x)]) k = None"
  by (cases e) simp_all

lemma error_field_read_back:
  "error_of_json (map_of (case e of None \<Rightarrow> [] | Some x \<Rightarrow> [(''error'', JString x)]) ''error'')
     = Some e"
  by (cases e) simp_all

lemma metrics_read_back:
  assumes "\<forall>v \<in> set (metric_values m). archivable v"
  shows "metrics_of_json (json_of_metrics m) = Some m"
proof -
  from assms have "archivable (performance m)" "archivable (accessibility m)"
    "archivable (bestPractices m)" "archivable (seo m)" "archivable (fcp m)"
    "archivable (lcp m)" "archivable (tbt m)" "archivable (cls m)" "archivable (si m)"
    by (simp_all add: metric_values_def)
  then show ?thesis
    by (simp add: json_of_metrics_def field_read_back field_skip error_field_skip
        error_field_read_back del: map_of_append)
qed

lemma result_read_back:
  assumes "\<forall>v \<in> set (metric_values (desktop r) @ metric_values (mobile r)). archivable v"
  shows "result_of_json (json_of_result r) = Some r"
  using assms by (simp add: json_of_result_def metrics_read_back ball_Un)

lemma results_read_back:
  "\<forall>r \<in> set results.
     \<forall>v \<in> set (metric_values (desktop r) @ metric_values (mobile r)). archivable v \<Longrightarrow>
   those (map result_of_json (map json_of_result results)) = Some results"
  by (induction results) (simp_all add: result_read_back)

lemma saveHistoricalData_eq:
  "saveHistoricalData E results w =
     (''historical-data/lighthouse_''
        @ slice_0_minus5 (replace_colon_dot (toISOString (clock E (ticks w)))) @ ''.json'',
      w\<lparr>ticks := ticks w + 2,
        dirs := (if ''historical-data'' \<in> set (dirs w) then dirs w
                 else ''historical-data'' # dirs w),
        files := (''historical-data/lighthouse_''
            @ slice_0_minus5 (replace_colon_dot (toISOString (clock E (ticks w)))) @ ''.json'',
          Document (JObject
           [(''timestamp'', JString (toISOString (clock E (ticks w)))),
            (''date'', JString (toLocaleString (clock E (Suc (ticks w))))),
            (''results'', JArray (map json_of_result results))])) # files w\<rparr>)"
  by (simp add: saveHistoricalData_def new_Date_def writeFileSync_def Let_def)

lemma metrics_no_score:
  "metrics_of (Inr report_no_score) =
     \<lparr>performance = NaN, accessibility = Num 100, bestPractices = Num 96, seo = Num 90,
      fcp = Null, lcp = Null, tbt = Null, cls = Null, si = Null, error = None\<rparr>"
  by (simp add: metrics_of_def report_no_score_def extractMetrics_def read_prop_def
      score100_def timing_def double_samples
      del: parsed.simps(1) times100.simps(7) Math_round.simps(7))

lemma analyzeUrls_no_score:
  "fst (analyzeUrls env_no_score [''https://a.example''] start) =
     [\<lparr>url = ''https://a.example'',
       desktop = \<lparr>performance = NaN, accessibility = Num 100, bestPractices = Num 96,
         seo = Num 90, fcp = Null, lcp = Null, tbt = Null, cls = Null, si = Null, error = None\<rparr>,
       mobile = \<lparr>performance = NaN, accessibility = Num 100, bestPractices = Num 96,
         seo = Num 90, fcp = Null, lcp = Null, tbt = Null, cls = Null, si = Null, error = None\<rparr>\<rparr>]"
  by (simp add: analyzeUrls_fst result_at_def outcome_def env_no_score_def sample_env_def
      metrics_no_score)

text \<open>
  Claim C7, amended. The writer is given the Batch Result only and takes the run
  timestamp from the clock: the ISO string from one reading, the locale string from
  the next. For every Batch Result in which every metric value is absent or a finite
  number other than negative zero (so none is \<^verbatim>\<open>NaN\<close>, \<^verbatim>\<open>Infinity\<close>, \<^verbatim>\<open>-Infinity\<close> or
  \<^verbatim>\<open>-0\<close>), reading the written document back gives these two strings and the same
  Batch Result: every URL, both Metric Sets with every score and timing value, absent
  or not, and every error message.
\<close>

theorem archive_round_trip:
  assumes "\<forall>r \<in> set results.
     \<forall>v \<in> set (metric_values (desktop r) @ metric_values (mobile r)). archivable v"
  shows "write_then_read E results w = Some
        (toISOString (clock E (ticks w)), toLocaleString (clock E (Suc (ticks w))), results)"
  using results_read_back [OF assms]
  by (simp add: write_then_read_def saveHistoricalData_eq file_content_def)

theorem archive_round_trip_witness:
  "write_then_read sample_env sample_results start = Some
     (''2024-01-01T00:00:00.000Z'', ''lunes, 1 de enero de 2024, 1:00'', sample_results)"
proof -
  have "\<forall>r \<in> set sample_results.
     \<forall>v \<in> set (metric_values (desktop r) @ metric_values (mobile r)). archivable v"
    by (simp add: sample_results_def sample_metrics_def failed_def metric_values_def)
  from archive_round_trip [OF this, of sample_env start] show ?thesis
    by (simp add: sample_env_def start_def ticking_clock_def digits.simps)
qed

text \<open>
  The claim as it is written fails: a report whose performance category has no
  \<^verbatim>\<open>score\<close> gives the score \<^verbatim>\<open>NaN\<close>, which \<^verbatim>\<open>JSON.stringify\<close> writes as \<^verbatim>\<open>null\<close>, so
  the Batch Result that is read back is another one. An infinite value, which a score
  or a numeric value beyond the range of the doubles gives, is written as \<^verbatim>\<open>null\<close> in
  the same way.
\<close>

theorem archive_round_trip_counterexample:
  "write_then_read env_no_score (fst (analyzeUrls env_no_score [''https://a.example''] start)) start
     = Some (''2024-01-01T00:00:00.000Z'', ''lunes, 1 de enero de 2024, 1:00'',
        [\<lparr>url = ''https://a.example'',
          desktop = \<lparr>performance = Null, accessibility = Num 100, bestPractices = Num 96,
            seo = Num 90, fcp = Null, lcp = Null, tbt = Null, cls = Null, si = Null,
            error = None\<rparr>,
          mobile = \<lparr>performance = Null, accessibility = Num 100, bestPractices = Num 96,
            seo = Num 90, fcp = Null, lcp = Null, tbt = Null, cls = Null, si = Null,
            error = None\<rparr>\<rparr>]) \<and>
   write_then_read env_no_score (fst (analyzeUrls env_no_score [''https://a.example''] start)) start
     \<noteq> Some (''2024-01-01T00:00:00.000Z'', ''lunes, 1 de enero de 2024, 1:00'',
          fst (analyzeUrls env_no_score [''https://a.example''] start))"
  unfolding analyzeUrls_no_score
  by (simp add: write_then_read_def saveHistoricalData_eq file_content_def json_of_result_def
      json_of_metrics_def json_field_def env_no_score_def sample_env_def start_def
      ticking_clock_def digits.simps)

section \<open>Facts about the timestamps of the artifacts\<close>

lemma saveResultsToCSV_eq:
  "saveResultsToCSV E results w =
     (''lighthouse_results_'' @ file_timestamp (clock E (ticks w)) @ ''.csv'',
      w\<lparr>ticks := Suc (ticks w),
        files := (''lighthouse_results_'' @ file_timestamp (clock E (ticks w)) @ ''.csv'',
                  Text (csvContent E results)) # files w\<rparr>)"
  by (simp add: saveResultsToCSV_def new_Date_def writeFileSync_def file_timestamp_def Let_def)

lemma generateSimplifiedHTMLEmail_eq:
  "generateSimplifiedHTMLEmail E results w =
     (''lighthouse_email_'' @ file_timestamp (clock E (Suc (ticks w))) @ ''.html'',
      w\<lparr>ticks := Suc (Suc (ticks w)),
        files := (''lighthouse_email_'' @ file_timestamp (clock E (Suc (ticks w))) @ ''.html'',
                  Text (htmlContent E (toLocaleString (clock E (ticks w))) results)) # files w\<rparr>)"
  by (simp add: generateSimplifiedHTMLEmail_def new_Date_def writeFileSync_def
      file_timestamp_def Let_def)

lemma saveHistoricalData_eq2:
  "saveHistoricalData E results w =
     (''historical-data/lighthouse_'' @ file_timestamp (clock E (ticks w)) @ ''.json'',
      w\<lparr>ticks := Suc (Suc (ticks w)),
        dirs := (if ''historical-data'' \<in> set (dirs w) then dirs w
                 else ''historical-data'' # dirs w),
        files := (''historical-data/lighthouse_'' @ file_timestamp (clock E (ticks w)) @ ''.json'',
          Document (JObject
           [(''timestamp'', JString (toISOString (clock E (ticks w)))),
            (''date'', JString (toLocaleString (clock E (Suc (ticks w))))),
            (''results'', JArray (map json_of_result results))])) # files w\<rparr>)"
  by (simp add: saveHistoricalData_eq file_timestamp_def)

lemma emit_reports_eq:
  "emit_reports E results w =
    ((''lighthouse_results_'' @ file_timestamp (clock E (ticks w)) @ ''.csv'',
      ''lighthouse_email_'' @ file_timestamp (clock E (ticks w + 2)) @ ''.html'',
      ''historical-data/lighthouse_'' @ file_timestamp (clock E (ticks w + 3)) @ ''.json''),
     w\<lparr>ticks := ticks w + 5,
       dirs := (if ''historical-data'' \<in> set (dirs w) then dirs w
                else ''historical-data'' # dirs w),
       files :=
         [(''historical-data/lighthouse_'' @ file_timestamp (clock E (ticks w + 3)) @ ''.json'',
           Document (JObject
             [(''timestamp'', JString (toISOString (clock E (ticks w + 3)))),
              (''date'', JString (toLocaleString (clock E (ticks w + 4)))),
              (''results'', JArray (map json_of_result results))])),
          (''lighthouse_email_'' @ file_timestamp (clock E (ticks w + 2)) @ ''.html'',
           Text (htmlContent E (toLocaleString (clock E (ticks w + 1))) results)),
          (''lighthouse_results_'' @ file_timestamp (clock E (ticks w)) @ ''.csv'',
           Text (csvContent E results))] @ files w\<rparr>)"
  by (simp add: emit_reports_def saveResultsToCSV_eq generateSimplifiedHTMLEmail_eq
      saveHistoricalData_eq2 eval_nat_numeral)

lemma to_text_toString:
  "toString E' = toString E \<Longrightarrow> to_text E' v = to_text E v"
  by (cases v) simp_all

lemma coalesce_toString:
  assumes "toString E' = toString E"
  shows "coalesce E' v alt = coalesce E v alt"
  by (simp add: coalesce_def to_text_toString [OF assms])

lemma csvContent_toString:
  assumes "toString E' = toString E"
  shows "csvContent E' results = csvContent E results"
proof -
  have "csv_row E' r = csv_row E r" for r
    by (simp add: csv_row_def csv_cells_def coalesce_toString [OF assms])
  then have "csv_row E' = csv_row E"
    by (intro ext)
  then show ?thesis
    by (simp add: csvContent_def)
qed

lemma htmlContent_toString:
  assumes "toString E' = toString E"
  shows "htmlContent E' date results = htmlContent E date results"
proof -
  have "html_row E' r = html_row E r" for r
    by (simp add: html_row_def coalesce_toString [OF assms])
  then have "html_row E' = html_row E"
    by (intro ext)
  moreover have "html_head E' date results = html_head E date results"
    by (simp add: html_head_def assms)
  ultimately show ?thesis
    by (simp add: htmlContent_def)
qed

text \<open>The locale string that the HTML summary is given is part of its text.\<close>

lemma sublist_concat:
  assumes "x \<in> set xs"
  shows "sublist x (concat xs)"
proof -
  from assms obtain ys zs where "xs = ys @ x # zs"
    by (auto dest: split_list)
  then have "concat xs = concat ys @ x @ concat zs" by simp
  then show ?thesis by (simp only: sublist_appendI)
qed

lemma html_head_date: "sublist date (html_head E date results)"
  unfolding html_head_def by (rule sublist_concat) simp

lemma htmlContent_date: "sublist date (htmlContent E date results)"
proof -
  from html_head_date [of date E results]
  obtain ps ss where "html_head E date results = ps @ date @ ss"
    by (auto simp: sublist_def)
  then have "htmlContent E date results = ps @ date @ (ss @ concat (map (html_row E) results) @ html_tail)"
    by (simp add: htmlContent_def)
  then show ?thesis by (simp only: sublist_appendI)
qed

text \<open>
  Claim C9, amended. No emitter is given a run timestamp; each is given the Batch
  Result and reads the clock itself, once for the tabular export and twice each for the
  HTML summary and the archive. When the five readings of a run are one and the same
  reading \<open>d\<close>, the names and contents of the three artifacts are determined by the
  Batch Result and \<open>d\<close>, given the text of numbers: every name carries the timestamp of
  \<open>d\<close>, the archive holds the ISO and locale strings of \<open>d\<close>, the text of the HTML
  summary contains its locale string, and a second run with the same Batch Result and
  the same reading, in any other environment and state, gives the same three names and
  the same three contents. The tabular content is the same whatever the clock shows.
\<close>

theorem emitters_with_one_clock_reading:
  assumes "\<forall>k < 5. clock E (ticks w + k) = d"
    and "\<forall>k < 5. clock E' (ticks w' + k) = d" and "toString E' = toString E"
  shows "fst (emit_reports E results w) =
      (''lighthouse_results_'' @ file_timestamp d @ ''.csv'',
       ''lighthouse_email_'' @ file_timestamp d @ ''.html'',
       ''historical-data/lighthouse_'' @ file_timestamp d @ ''.json'') \<and>
    fst (emit_reports E' results w') = fst (emit_reports E results w) \<and>
    files (snd (emit_reports E results w)) =
      [(''historical-data/lighthouse_'' @ file_timestamp d @ ''.json'',
        Document (JObject
          [(''timestamp'', JString (toISOString d)),
           (''date'', JString (toLocaleString d)),
           (''results'', JArray (map json_of_result results))])),
       (''lighthouse_email_'' @ file_timestamp d @ ''.html'',
        Text (htmlContent E (toLocaleString d) results)),
       (''lighthouse_results_'' @ file_timestamp d @ ''.csv'',
        Text (csvContent E results))] @ files w \<and>
    sublist (toLocaleString d) (htmlContent E (toLocaleString d) results) \<and>
    take 3 (files (snd (emit_reports E' results w'))) =
      take 3 (files (snd (emit_reports E results w))) \<and>
    (\<forall>E'' w''. toString E'' = toString E \<longrightarrow>
       file_content (snd (saveResultsToCSV E'' results w'')) (fst (saveResultsToCSV E'' results w''))
         = Some (Text (csvContent E results)))"
proof -
  have "clock E (ticks w + k) = d" if "k < 5" for k
    using assms(1) that by blast
  note c = this [of 0] this [of 1] this [of 2] this [of 3] this [of 4]
  have "clock E' (ticks w' + k) = d" if "k < 5" for k
    using assms(2) that by blast
  note c' = this [of 0] this [of 1] this [of 2] this [of 3] this [of 4]
  have csv: "csvContent E' results = csvContent E results"
    and html: "htmlContent E' (toLocaleString d) results = htmlContent E (toLocaleString d) results"
    using assms(3) by (rule csvContent_toString, rule htmlContent_toString)
  have any: "file_content (snd (saveResultsToCSV E'' results w'')) (fst (saveResultsToCSV E'' results w''))
         = Some (Text (csvContent E results))" if "toString E'' = toString E" for E'' w''
    unfolding csvContent_toString [OF that, symmetric]
    by (simp add: saveResultsToCSV_eq file_content_def)
  have one: "fst (emit_reports E results w) =
      (''lighthouse_results_'' @ file_timestamp d @ ''.csv'',
       ''lighthouse_email_'' @ file_timestamp d @ ''.html'',
       ''historical-data/lighthouse_'' @ file_timestamp d @ ''.json'')"
    and files: "files (snd (emit_reports E results w)) =
      [(''historical-data/lighthouse_'' @ file_timestamp d @ ''.json'',
        Document (JObject
          [(''timestamp'', JString (toISOString d)),
           (''date'', JString (toLocaleString d)),
           (''results'', JArray (map json_of_result results))])),
       (''lighthouse_email_'' @ file_timestamp d @ ''.html'',
        Text (htmlContent E (toLocaleString d) results)),
       (''lighthouse_results_'' @ file_timestamp d @ ''.csv'',
        Text (csvContent E results))] @ files w"
    using c by (simp_all add: emit_reports_eq)
  have two: "fst (emit_reports E' results w') = fst (emit_reports E results w)"
    unfolding one using c' by (simp add: emit_reports_eq)
  have three: "take 3 (files (snd (emit_reports E' results w'))) =
      take 3 (files (snd (emit_reports E results w)))"
    unfolding files using c' by (simp add: emit_reports_eq csv html)
  have date: "sublist (toLocaleString d) (htmlContent E (toLocaleString d) results)"
    by (rule htmlContent_date)
  from one two files date three any show ?thesis
    by blast
qed

theorem emitters_with_one_clock_reading_witness:
  "fst (emit_reports (sample_env\<lparr>clock := still_clock\<rparr>) sample_results start) =
      (''lighthouse_results_2024-01-01T00-00-00.csv'',
       ''lighthouse_email_2024-01-01T00-00-00.html'',
       ''historical-data/lighthouse_2024-01-01T00-00-00.json'') \<and>
   fst (emit_reports (env_no_score\<lparr>clock := still_clock, LIGHTHOUSE_URLS := None\<rparr>)
          sample_results (start\<lparr>ticks := 7, files := [(''notes.txt'', Text ''x'')]\<rparr>)) =
   fst (emit_reports (sample_env\<lparr>clock := still_clock\<rparr>) sample_results start) \<and>
   take 3 (files (snd (emit_reports (env_no_score\<lparr>clock := still_clock, LIGHTHOUSE_URLS := None\<rparr>)
          sample_results (start\<lparr>ticks := 7, files := [(''notes.txt'', Text ''x'')]\<rparr>)))) =
   take 3 (files (snd (emit_reports (sample_env\<lparr>clock := still_clock\<rparr>) sample_results start)))"
proof -
  have 1: "\<forall>k < 5. clock (sample_env\<lparr>clock := still_clock\<rparr>) (ticks start + k) = ticking_clock 0"
    by (simp add: still_clock_def)
  have 2: "\<forall>k < 5. clock (env_no_score\<lparr>clock := still_clock, LIGHTHOUSE_URLS := None\<rparr>)
      (ticks (start\<lparr>ticks := 7, files := [(''notes.txt'', Text ''x'')]\<rparr>) + k) = ticking_clock 0"
    by (simp add: still_clock_def)
  have 3: "toString (env_no_score\<lparr>clock := still_clock, LIGHTHOUSE_URLS := None\<rparr>) =
      toString (sample_env\<lparr>clock := still_clock\<rparr>)"
    by (simp add: env_no_score_def)
  from emitters_with_one_clock_reading [OF 1 2 3, of sample_results] show ?thesis
    by (simp add: file_timestamp_def ticking_clock_def digits.simps slice_0_minus5_def
        replace_colon_dot_def)
qed

text \<open>
  The claim as it is written fails: with a clock that moves on between the readings,
  the three artifacts of one run carry three different timestamps.
\<close>

theorem emitters_counterexample:
  "fst (emit_reports sample_env sample_results start) =
      (''lighthouse_results_2024-01-01T00-00-00.csv'',
       ''lighthouse_email_2024-01-01T00-00-02.html'',
       ''historical-data/lighthouse_2024-01-01T00-00-03.json'') \<and>
   file_timestamp (clock sample_env 0) \<noteq> file_timestamp (clock sample_env 2) \<and>
   file_timestamp (clock sample_env 2) \<noteq> file_timestamp (clock sample_env 3)"
  by (simp add: emit_reports_eq sample_env_def start_def file_timestamp_def ticking_clock_def
      digits.simps slice_0_minus5_def replace_colon_dot_def)

section \<open>Facts about the tabular export\<close>

lemma split_str_no_sep: "c \<notin> set s \<Longrightarrow> split_str c s = [s]"
  by (induction s) auto

lemma split_str_append:
  "c \<notin> set a \<Longrightarrow> split_str c (a @ c # b) = a # split_str c b"
  by (induction a) auto

lemma split_str_join:
  "xs \<noteq> [] \<Longrightarrow> \<forall>x \<in> set xs. c \<notin> set x \<Longrightarrow> split_str c (join [c] xs) = xs"
proof (induction "[c]" xs rule: join.induct)
  case 1
  then show ?case by simp
next
  case (2 x)
  then show ?case by (simp add: split_str_no_sep)
next
  case (3 x y ys)
  then show ?case by (simp add: split_str_append)
qed

lemma join_Cons: "xs \<noteq> [] \<Longrightarrow> join sep (x # xs) = x @ sep @ join sep xs"
  by (cases xs) simp_all

lemma coalesce_cell: "coalesce E v ''ERROR'' = cell E v"
  by (cases v) (simp_all add: coalesce_def cell_def)

lemma cell_chars:
  assumes "\<forall>x. c \<notin> set (toString E x)" and "c \<notin> set ''ERROR''" and "c \<notin> set ''NaN''"
    and "c \<notin> set ''-Infinity''" and "c \<notin> set ''0''"
  shows "c \<notin> set (cell E v)"
  using assms by (cases v) (simp_all add: cell_def)

lemma csv_row_join:
  "csv_row E r = join '','' (url r # map (cell E) (metric_values (desktop r) @ metric_values (mobile r)))"
  by (simp add: csv_row_def csv_cells_def coalesce_cell metric_values_def Let_def)

lemma columns_csv_row:
  assumes "CHR '','' \<notin> set (url r)" and "\<forall>x. CHR '','' \<notin> set (toString E x)"
  shows "columns (csv_row E r) =
     url r # map (cell E) (metric_values (desktop r) @ metric_values (mobile r))"
proof -
  have "CHR '','' \<notin> set (cell E v)" for v
    using assms(2) by (intro cell_chars) simp_all
  with assms(1)
  have "\<forall>x \<in> set (url r # map (cell E) (metric_values (desktop r) @ metric_values (mobile r))).
          CHR '','' \<notin> set x"
    by auto
  then show ?thesis
    unfolding columns_def csv_row_join
    by (intro split_str_join) simp
qed

lemma csv_row_line:
  assumes "CHR 0x0A \<notin> set (url r)" and "\<forall>x. CHR 0x0A \<notin> set (toString E x)"
  shows "CHR 0x0A \<notin> set (csv_row E r)"
proof -
  have "CHR 0x0A \<notin> set (cell E v)" for v
    using assms by (intro cell_chars) simp_all
  with assms show ?thesis
    by (simp add: csv_row_def csv_cells_def coalesce_cell Let_def)
qed

lemma csv_row_not_empty: "csv_row E r \<noteq> []"
  by (simp add: csv_row_def Let_def)

lemma csvHeader_row: "csvHeader = header_row @ [CHR 0x0A]"
  by (simp add: header_row_def csvHeader_def nl_def)

lemma header_row_line: "CHR 0x0A \<notin> set header_row"
  by (simp add: header_row_def csvHeader_def nl_def)

lemma columns_header: "length (columns header_row) = 19"
  by (simp add: header_row_def csvHeader_def nl_def columns_def)

lemma last_join:
  "xs \<noteq> [] \<Longrightarrow> last xs \<noteq> [] \<Longrightarrow> join sep xs \<noteq> []"
  by (induction sep xs rule: join.induct) auto

lemma rows_csvContent:
  assumes "\<forall>r \<in> set results. CHR 0x0A \<notin> set (url r)"
    and "\<forall>x. CHR 0x0A \<notin> set (toString E x)"
  shows "rows (csvContent E results) = header_row # map (csv_row E) results"
proof (cases "results = []")
  case True
  then show ?thesis
    by (simp add: csvContent_def csvHeader_row rows_def split_str_append header_row_line)
next
  case False
  let ?rs = "map (csv_row E) results"
  have c: "csvContent E results = join [CHR 0x0A] (header_row # ?rs)"
    using False by (simp add: csvContent_def csvHeader_row join_Cons nl_def)
  have "\<forall>x \<in> set (header_row # ?rs). CHR 0x0A \<notin> set x"
    using assms by (auto simp: header_row_line csv_row_line)
  then have s: "split_str (CHR 0x0A) (csvContent E results) = header_row # ?rs"
    unfolding c by (intro split_str_join) simp
  have "last (header_row # ?rs) \<noteq> []"
    using False by (simp add: last_map csv_row_not_empty)
  with s show ?thesis
    by (simp add: rows_def)
qed

lemma digits_chars: "set (digits n) \<subseteq> set ''0123456789''"
proof (induction n rule: digits.induct)
  case (1 n)
  show ?case
  proof (cases "n < 10")
    case True
    then have "''0123456789'' ! n \<in> set ''0123456789''"
      by (intro nth_mem) simp
    with True show ?thesis
      by (subst digits.simps) simp
  next
    case False
    have "''0123456789'' ! (n mod 10) \<in> set ''0123456789''"
      by (intro nth_mem) simp
    with False "1.IH" show ?thesis
      by (subst digits.simps) simp
  qed
qed

lemma frac_digits_chars: "set (frac_digits n x) \<subseteq> set ''0123456789''"
proof (induction n arbitrary: x)
  case 0
  then show ?case by simp
next
  case (Suc n)
  have "''0123456789'' ! (nat \<lfloor>x * 10\<rfloor> mod 10) \<in> set ''0123456789''"
    by (intro nth_mem) simp
  with Suc show ?case
    by (simp add: Let_def)
qed

lemma unsigned_text_chars: "set (unsigned_text x) \<subseteq> set ''.0123456789''"
proof -
  define D where "D = set ''0123456789''"
  have "set (digits (nat \<lfloor>x\<rfloor>)) \<subseteq> D"
    and "set (frac_digits 17 (x - of_int \<lfloor>x\<rfloor>)) \<subseteq> D"
    unfolding D_def by (rule digits_chars frac_digits_chars)+
  then have "set (unsigned_text x) \<subseteq> insert CHR ''.'' D"
    by (auto simp: unsigned_text_def)
  then show ?thesis
    by (simp add: D_def)
qed

lemma decimal_text_chars: "set (decimal_text x) \<subseteq> set ''-.0123456789''"
proof -
  define D where "D = set ''.0123456789''"
  have "set (unsigned_text x) \<subseteq> D" and "set (unsigned_text (- x)) \<subseteq> D"
    unfolding D_def by (rule unsigned_text_chars)+
  then have "set (decimal_text x) \<subseteq> insert CHR ''-'' D"
    by (auto simp: decimal_text_def)
  then show ?thesis
    by (simp add: D_def)
qed

lemma decimal_text_separators:
  "CHR '','' \<notin> set (decimal_text x) \<and> CHR 0x0A \<notin> set (decimal_text x)"
proof -
  have a: "c \<in> set ''-.0123456789''" if "c \<in> set (decimal_text x)" for c
    using decimal_text_chars that by (rule subsetD)
  have "CHR '','' \<notin> set (decimal_text x)"
  proof
    assume "CHR '','' \<in> set (decimal_text x)"
    from a [OF this] show False by simp
  qed
  moreover have "CHR 0x0A \<notin> set (decimal_text x)"
  proof
    assume "CHR 0x0A \<in> set (decimal_text x)"
    from a [OF this] show False by simp
  qed
  ultimately show ?thesis by simp
qed

lemma frac_digits_numeral:
  "frac_digits (numeral k) x =
     (if x = 0 then []
      else (let y = x * 10
            in (''0123456789'' ! (nat \<lfloor>y\<rfloor> mod 10)) # frac_digits (pred_numeral k) (y - of_int \<lfloor>y\<rfloor>)))"
  by (simp add: numeral_eq_Suc)

lemma digits_samples:
  "digits 0 = ''0''" "digits 93 = ''93''" "digits 100 = ''100''" "digits 96 = ''96''"
  "digits 90 = ''90''" "digits 812 = ''812''" "digits 1500 = ''1500''"
  "digits 120 = ''120''" "digits 900 = ''900''"
  by (simp_all add: digits.simps)

lemma frac_digits_sample: "frac_digits 17 (1 / 8) = ''125''"
  by (simp add: frac_digits_numeral Let_def)

lemma decimal_samples:
  "decimal_text 93 = ''93''" "decimal_text 100 = ''100''" "decimal_text 96 = ''96''"
  "decimal_text 90 = ''90''" "decimal_text 812 = ''812''" "decimal_text 1500 = ''1500''"
  "decimal_text 120 = ''120''" "decimal_text (1 / 8) = ''0.125''" "decimal_text 900 = ''900''"
  by (simp_all add: decimal_text_def unsigned_text_def digits_samples frac_digits_sample)

lemma parse_two_lines: "parse_urls url_of_two_lines = [url_of_two_lines]"
  by code_simp

lemma csv_row_failed:
  "csv_row E \<lparr>url = u, desktop = failed a, mobile = failed b\<rparr> =
     u @ '',ERROR,ERROR,ERROR,ERROR,ERROR,ERROR,ERROR,ERROR,ERROR,ERROR,ERROR,ERROR,ERROR,ERROR,ERROR,ERROR,ERROR,ERROR''"
  by (simp add: csv_row_def csv_cells_def coalesce_def failed_def Let_def)

text \<open>
  Claim C5, amended. For every Batch Result whose URLs contain neither a comma nor a
  line feed (the text of a number contains neither), the tabular export that is
  written has one header row and one data row per URL, every row has 19 columns, the
  columns of a data row are the URL and the cells of the nine desktop and the nine
  mobile metrics, and the cell of an absent metric value is the string \<^verbatim>\<open>ERROR\<close>.
\<close>

theorem csv_table:
  assumes "\<forall>r \<in> set results. CHR '','' \<notin> set (url r) \<and> CHR 0x0A \<notin> set (url r)"
    and "\<forall>x. CHR '','' \<notin> set (toString E x) \<and> CHR 0x0A \<notin> set (toString E x)"
  shows "case saveResultsToCSV E results w of (filename, w') \<Rightarrow>
      file_content w' filename = Some (Text (csvContent E results)) \<and>
      (let table = rows (csvContent E results)
       in length table = length results + 1 \<and>
          (\<forall>row \<in> set table. length (columns row) = 19) \<and>
          (\<forall>i < length results.
             columns (table ! Suc i) =
               url (results ! i) #
               map (cell E) (metric_values (desktop (results ! i)) @
                             metric_values (mobile (results ! i)))) \<and>
          cell E Null = ''ERROR'' \<and> cell E Undefined = ''ERROR'')"
proof -
  have t: "rows (csvContent E results) = header_row # map (csv_row E) results"
    using assms by (intro rows_csvContent) simp_all
  have c: "columns (csv_row E r) =
       url r # map (cell E) (metric_values (desktop r) @ metric_values (mobile r))"
    if "r \<in> set results" for r
    using assms that by (intro columns_csv_row) simp_all
  have n: "length (columns (csv_row E r)) = 19" if "r \<in> set results" for r
    by (simp add: c [OF that] metric_values_def)
  have "\<forall>row \<in> set (header_row # map (csv_row E) results). length (columns row) = 19"
    using n by (auto simp: columns_header)
  moreover have "\<forall>i < length results.
      columns ((header_row # map (csv_row E) results) ! Suc i) =
        url (results ! i) #
        map (cell E) (metric_values (desktop (results ! i)) @ metric_values (mobile (results ! i)))"
    using c by simp
  ultimately show ?thesis
    unfolding t Let_def
    by (simp add: saveResultsToCSV_eq file_content_def cell_def)
qed

theorem csv_table_witness:
  "length (rows (csvContent sample_env sample_results)) = 3 \<and>
   columns (rows (csvContent sample_env sample_results) ! 2) =
     [''https://b.example'',
      ''93'', ''100'', ''96'', ''90'', ''812'', ''1500'', ''120'', ''0.125'', ''900'',
      ''ERROR'', ''ERROR'', ''ERROR'', ''ERROR'', ''ERROR'', ''ERROR'', ''ERROR'', ''ERROR'',
      ''ERROR'']"
proof -
  let ?table = "rows (csvContent sample_env sample_results)"
  have u: "\<forall>r \<in> set sample_results. CHR '','' \<notin> set (url r) \<and> CHR 0x0A \<notin> set (url r)"
    by (simp add: sample_results_def)
  have n: "\<forall>x. CHR '','' \<notin> set (toString sample_env x) \<and>
      CHR 0x0A \<notin> set (toString sample_env x)"
    by (simp add: sample_env_def decimal_text_separators)
  have ts: "toString sample_env = decimal_text"
    by (simp add: sample_env_def)
  have len: "length sample_results = 2"
    by (simp add: sample_results_def)
  have r: "sample_results ! 1 =
      \<lparr>url = ''https://b.example'', desktop = sample_metrics,
       mobile = failed ''Command failed''\<rparr>"
    by (simp add: sample_results_def)
  from csv_table [OF u n, of start]
  have "length ?table = length sample_results + 1"
    and "\<forall>i < length sample_results.
       columns (?table ! Suc i) =
         url (sample_results ! i) #
         map (cell sample_env) (metric_values (desktop (sample_results ! i)) @
                                metric_values (mobile (sample_results ! i)))"
    by (simp_all add: Let_def saveResultsToCSV_eq)
  with len have "length ?table = 3"
    and "columns (?table ! Suc 1) =
         url (sample_results ! 1) #
         map (cell sample_env) (metric_values (desktop (sample_results ! 1)) @
                                metric_values (mobile (sample_results ! 1)))"
    by simp_all
  then show ?thesis
    unfolding r
    by (simp add: sample_metrics_def failed_def metric_values_def cell_def ts decimal_samples
        numeral_2_eq_2)
qed

text \<open>
  The claim as it is written fails: a URL with a line feed inside it, which the
  parsing of the variable lets through, is written over two rows, so the export of one
  URL has three rows.
\<close>

theorem csv_rows_counterexample:
  "parse_urls url_of_two_lines = [url_of_two_lines] \<and>
   rows (csvContent sample_env
     [\<lparr>url = url_of_two_lines, desktop = failed ''Command failed'',
       mobile = failed ''Command failed''\<rparr>]) =
     [header_row,
      ''https://a.example/x'',
      ''y,ERROR,ERROR,ERROR,ERROR,ERROR,ERROR,ERROR,ERROR,ERROR,ERROR,ERROR,ERROR,ERROR,ERROR,ERROR,ERROR,ERROR,ERROR''] \<and>
   length (rows (csvContent sample_env
     [\<lparr>url = url_of_two_lines, desktop = failed ''Command failed'',
       mobile = failed ''Command failed''\<rparr>])) \<noteq>
     length [\<lparr>url = url_of_two_lines, desktop = failed ''Command failed'',
       mobile = failed ''Command failed''\<rparr>] + 1"
proof -
  have "rows (csvContent sample_env
     [\<lparr>url = url_of_two_lines, desktop = failed ''Command failed'',
       mobile = failed ''Command failed''\<rparr>]) =
     [header_row,
      ''https://a.example/x'',
      ''y,ERROR,ERROR,ERROR,ERROR,ERROR,ERROR,ERROR,ERROR,ERROR,ERROR,ERROR,ERROR,ERROR,ERROR,ERROR,ERROR,ERROR,ERROR'']"
    by (simp add: csvContent_def csvHeader_row rows_def split_str_append header_row_line
        csv_row_failed url_of_two_lines_def nl_def)
  with parse_two_lines show ?thesis by simp
qed

end
